theory Spec2Isabelle
  imports Main "HOL-Library.Word"
begin

section \<open>The diagnostic stream\<close>

text \<open>
  \<open>SkeletonPass::run\<close> (src/skeleton/Skeleton.cpp) writes one report to \<open>errs()\<close>, a
  byte stream. A \<open>string\<close> is a list of bytes, so the glyphs of the report are written
  as their UTF-8 encodings.
\<close>

definition nl :: string where
  "nl = [CHR 0x0A]"

definition box_dbl_down_right :: string where
  "box_dbl_down_right = [CHR 0xE2, CHR 0x95, CHR 0x94]"

definition box_dbl_horizontal :: string where
  "box_dbl_horizontal = [CHR 0xE2, CHR 0x95, CHR 0x90]"

definition box_dbl_down_left :: string where
  "box_dbl_down_left = [CHR 0xE2, CHR 0x95, CHR 0x97]"

definition box_dbl_vertical :: string where
  "box_dbl_vertical = [CHR 0xE2, CHR 0x95, CHR 0x91]"

definition box_dbl_up_right :: string where
  "box_dbl_up_right = [CHR 0xE2, CHR 0x95, CHR 0x9A]"

definition box_dbl_up_left :: string where
  "box_dbl_up_left = [CHR 0xE2, CHR 0x95, CHR 0x9D]"

definition box_down_right :: string where
  "box_down_right = [CHR 0xE2, CHR 0x94, CHR 0x8C]"

definition box_horizontal :: string where
  "box_horizontal = [CHR 0xE2, CHR 0x94, CHR 0x80]"

definition box_vertical :: string where
  "box_vertical = [CHR 0xE2, CHR 0x94, CHR 0x82]"

definition box_vertical_right :: string where
  "box_vertical_right = [CHR 0xE2, CHR 0x94, CHR 0x9C]"

definition box_up_right :: string where
  "box_up_right = [CHR 0xE2, CHR 0x94, CHR 0x94]"

definition arrow_tip :: string where
  "arrow_tip = [CHR 0xE2, CHR 0x86, CHR 0xB3]"

definition bullet :: string where
  "bullet = [CHR 0xE2, CHR 0x80, CHR 0xA2]"

definition glyph_magnifier :: string where
  "glyph_magnifier = [CHR 0xF0, CHR 0x9F, CHR 0x94, CHR 0x8D]"

definition glyph_folder :: string where
  "glyph_folder = [CHR 0xF0, CHR 0x9F, CHR 0x93, CHR 0x81]"

definition glyph_clipboard :: string where
  "glyph_clipboard = [CHR 0xF0, CHR 0x9F, CHR 0x93, CHR 0x8B]"

definition glyph_wrench :: string where
  "glyph_wrench = [CHR 0xF0, CHR 0x9F, CHR 0x94, CHR 0xA7]"

definition glyph_package :: string where
  "glyph_package = [CHR 0xF0, CHR 0x9F, CHR 0x93, CHR 0xA6]"

definition glyph_inbox :: string where
  "glyph_inbox = [CHR 0xF0, CHR 0x9F, CHR 0x93, CHR 0xA5]"

definition glyph_outbox :: string where
  "glyph_outbox = [CHR 0xF0, CHR 0x9F, CHR 0x93, CHR 0xA4]"

definition glyph_telephone :: string where
  "glyph_telephone = [CHR 0xF0, CHR 0x9F, CHR 0x93, CHR 0x9E]"

definition glyph_shuffle :: string where
  "glyph_shuffle = [CHR 0xF0, CHR 0x9F, CHR 0x94, CHR 0x80]"

definition glyph_right_arrow :: string where
  "glyph_right_arrow = [CHR 0xE2, CHR 0x9E, CHR 0xA1, CHR 0xEF, CHR 0xB8, CHR 0x8F]"

definition glyph_back :: string where
  "glyph_back = [CHR 0xF0, CHR 0x9F, CHR 0x94, CHR 0x99]"

definition glyph_scales :: string where
  "glyph_scales = [CHR 0xE2, CHR 0x9A, CHR 0x96, CHR 0xEF, CHR 0xB8, CHR 0x8F]"

definition glyph_cycle :: string where
  "glyph_cycle = [CHR 0xF0, CHR 0x9F, CHR 0x94, CHR 0x84]"

definition glyph_gear :: string where
  "glyph_gear = [CHR 0xE2, CHR 0x9A, CHR 0x99, CHR 0xEF, CHR 0xB8, CHR 0x8F]"

definition glyph_question :: string where
  "glyph_question = [CHR 0xE2, CHR 0x9D, CHR 0x93]"

definition glyph_check :: string where
  "glyph_check = [CHR 0xE2, CHR 0x9C, CHR 0x85]"

text \<open>The three indentations of the per-instruction lines: the block's left bar, then
  nothing, six or nine blanks.\<close>

definition bar :: string where
  "bar = ''   '' @ box_vertical"

definition ind6 :: string where
  "ind6 = bar @ ''      ''"

definition ind9 :: string where
  "ind9 = bar @ ''         ''"

text \<open>\<open>raw_ostream\<close> prints an unsigned integer in decimal and a signed one with a
  leading minus sign.\<close>

function show_nat :: "nat \<Rightarrow> string" where
  "show_nat n =
     (if n < 10 then [''0123456789'' ! n]
      else show_nat (n div 10) @ [''0123456789'' ! (n mod 10)])"
  by pat_completeness auto
termination
  by (relation "measure id") auto

declare show_nat.simps [simp del]

definition show_int :: "int \<Rightarrow> string" where
  "show_int i = (if i < 0 then ''-'' @ show_nat (nat (- i)) else show_nat (nat i))"

text \<open>
  A fragment of the run: the text it appended to the stream, and then either the value it
  produced or the failure that ended it. The source has no handler anywhere, so a failure
  inside a statement ends every enclosing loop and the run itself; the text written before
  it stays on the stream (\<open>errs()\<close> is unbuffered).
\<close>

datatype error = Fatal

type_synonym 'a res = "string \<times> (error + 'a)"

definition emit :: "string \<Rightarrow> unit res" where
  "emit s = (s, Inr ())"

definition abort :: "error \<Rightarrow> unit res" where
  "abort e = ([], Inl e)"

text \<open>One statement after the other: the second runs only when the first completed.\<close>

definition next_stmt :: "unit res \<Rightarrow> unit res \<Rightarrow> unit res" where
  "next_stmt m k =
     (case m of
        (out1, Inl e) \<Rightarrow> (out1, Inl e)
      | (out1, Inr _) \<Rightarrow> (case k of (out2, r) \<Rightarrow> (out1 @ out2, r)))"

fun stmts :: "unit res list \<Rightarrow> unit res" where
  "stmts [] = emit []"
| "stmts (m # ms) = next_stmt m (stmts ms)"

section \<open>The IR as the pass reads it\<close>

text \<open>
  The IR belongs to the host. The model keeps of each entity what \<open>run\<close> reads from it.
  A type is known by its printed form only. A name is optional: \<open>hasName\<close> tells whether
  there is one and \<open>getName\<close> of a nameless entity is the empty string.
\<close>

type_synonym Type = string

definition hasName :: "string option \<Rightarrow> bool" where
  "hasName n = (n \<noteq> None)"

definition getName :: "string option \<Rightarrow> string" where
  "getName n = (case n of None \<Rightarrow> [] | Some s \<Rightarrow> s)"

text \<open>What \<open>dyn_cast<Instruction>\<close> and \<open>dyn_cast<ConstantInt>\<close> find in a value;
  \<open>getSExtValue\<close> is an \<open>int64_t\<close>.\<close>

datatype ValueClass =
    IsInstruction
  | IsConstantInt (getSExtValue: "64 word")
  | IsOtherValue

record Value =
  value_name :: "string option"
  value_type :: Type
  value_text :: string
  value_class :: ValueClass

record Argument =
  arg_name :: "string option"
  arg_type :: Type

datatype Predicate =
    FCMP_FALSE | FCMP_OEQ | FCMP_OGT | FCMP_OGE | FCMP_OLT | FCMP_OLE | FCMP_ONE
  | FCMP_ORD | FCMP_UNO | FCMP_UEQ | FCMP_UGT | FCMP_UGE | FCMP_ULT | FCMP_ULE
  | FCMP_UNE | FCMP_TRUE
  | ICMP_EQ | ICMP_NE | ICMP_UGT | ICMP_UGE | ICMP_ULT | ICMP_ULE
  | ICMP_SGT | ICMP_SGE | ICMP_SLT | ICMP_SLE

text \<open>The instruction classes the pass casts to, each with the accessors the pass calls
  on it. A successor block and a called function are kept as what is read from them: the
  block's name, the function's name and formal parameters.\<close>

record BinaryOperator =
  binop_operand0 :: Value
  binop_operand1 :: Value

record AllocaInst =
  getAllocatedType :: Type
  alloca_align :: nat

record LoadInst =
  load_pointer_operand :: Value
  load_type :: Type
  load_align :: nat

record StoreInst =
  store_value_operand :: Value
  store_pointer_operand :: Value
  store_align :: nat

record CalledFunction =
  callee_name :: "string option"
  callee_args :: "Argument list"

record CallInst =
  getCalledFunction :: "CalledFunction option"
  getCalledOperand :: Value
  call_args :: "Value list"

datatype BranchInst =
    Unconditional (successor0: "string option")
  | Conditional (getCondition: Value) (successor0: "string option")
      (successor1: "string option")

record ReturnInst =
  getReturnValue :: "Value option"

record CmpInst =
  is_ICmpInst :: bool
  getPredicate :: Predicate
  cmp_operand0 :: Value
  cmp_operand1 :: Value

record CastInst =
  getSrcTy :: Type
  getDestTy :: Type
  cast_operand0 :: Value

text \<open>
  An instruction: its printed form, its opcode name, its operands, and the result of each
  \<open>dyn_cast\<close> the pass tries on it (\<open>None\<close> for a null pointer). The casts are
  independent fields, so the model also covers instructions on which several of them
  succeed.
\<close>

record Instruction =
  inst_text :: string
  getOpcodeName :: string
  inst_operands :: "Value list"
  dyn_cast_BinaryOperator :: "BinaryOperator option"
  dyn_cast_AllocaInst :: "AllocaInst option"
  dyn_cast_LoadInst :: "LoadInst option"
  dyn_cast_StoreInst :: "StoreInst option"
  dyn_cast_CallInst :: "CallInst option"
  dyn_cast_BranchInst :: "BranchInst option"
  dyn_cast_ReturnInst :: "ReturnInst option"
  dyn_cast_CmpInst :: "CmpInst option"
  dyn_cast_CastInst :: "CastInst option"
  dyn_cast_Operator :: bool

record BasicBlock =
  bb_name :: "string option"
  bb_instructions :: "Instruction list"

record Function =
  fn_name :: "string option"
  getReturnType :: Type
  fn_args :: "Argument list"
  fn_blocks :: "BasicBlock list"

text \<open>The data layout gives the allocation size of a type, or nothing when the type has
  no computable size.\<close>

type_synonym DataLayout = "Type \<Rightarrow> nat option"

record Module =
  getModuleIdentifier :: string
  getDataLayout :: DataLayout
  module_functions :: "Function list"

text \<open>
  Modelled from the spec: \<open>AllocaInst::getAllocationSize\<close> belongs to the host and is not
  part of the repository. The spec (sections 4.3, 7 and 9) describes it as a capability
  supplied by the host that computes the byte size of the allocated type under the data
  layout, and fails, with no way for the pass to recover, when the type has no computable
  size.
\<close>

definition getAllocationSize :: "DataLayout \<Rightarrow> AllocaInst \<Rightarrow> error + nat" where
  "getAllocationSize DL alloca =
     (case DL (getAllocatedType alloca) of None \<Rightarrow> Inl Fatal | Some n \<Rightarrow> Inr n)"

text \<open>
  Modelled from the spec: \<open>Function::isDeclaration\<close> is host code. By section 3 of the
  spec a function is either a declaration, with no basic block, or a definition, with at
  least one.
\<close>

definition isDeclaration :: "Function \<Rightarrow> bool" where
  "isDeclaration F = (fn_blocks F = [])"

section \<open>The per-instruction analysis (lines 67 to 178)\<close>

text \<open>Each branch of the cascade is one definition, one \<open>emit\<close> for each statement.\<close>

definition binary_operation :: "Instruction \<Rightarrow> BinaryOperator \<Rightarrow> unit res" where
  "binary_operation I binOp = stmts
     [emit (ind6 @ glyph_wrench @ '' Binary Operation: '' @ getOpcodeName I @ nl),
      emit (ind9 @ ''Operand 1: '' @ value_text (binop_operand0 binOp) @ nl),
      emit (ind9 @ ''Operand 2: '' @ value_text (binop_operand1 binOp) @ nl)]"

text \<open>In line 75 the stream has received the label when the size is asked for (the
  operands of \<open><<\<close> are evaluated from left to right); a failure of the query ends the
  statement there.\<close>

definition stack_allocation :: "DataLayout \<Rightarrow> AllocaInst \<Rightarrow> unit res" where
  "stack_allocation DL alloca = stmts
     [emit (ind6 @ glyph_package @ '' Stack Allocation (alloca)'' @ nl),
      emit (ind9 @ ''Type: '' @ getAllocatedType alloca @ nl),
      emit (ind9 @ ''Size: ''),
      (case getAllocationSize DL alloca of
         Inl e \<Rightarrow> abort e
       | Inr n \<Rightarrow> emit (show_nat n @ '' bytes'' @ nl)),
      emit (ind9 @ ''Alignment: '' @ show_nat (alloca_align alloca) @ '' bytes'' @ nl)]"

definition load_from_memory :: "LoadInst \<Rightarrow> unit res" where
  "load_from_memory load = stmts
     [emit (ind6 @ glyph_inbox @ '' Load from Memory'' @ nl),
      emit (ind9 @ ''Source: '' @ value_text (load_pointer_operand load) @ nl),
      emit (ind9 @ ''Type: '' @ load_type load @ nl),
      emit (ind9 @ ''Alignment: '' @ show_nat (load_align load) @ '' bytes'' @ nl)]"

definition store_to_memory :: "StoreInst \<Rightarrow> unit res" where
  "store_to_memory store = stmts
     [emit (ind6 @ glyph_outbox @ '' Store to Memory'' @ nl),
      emit (ind9 @ ''Value: '' @ value_text (store_value_operand store) @ nl),
      emit (ind9 @ ''Destination: '' @ value_text (store_pointer_operand store) @ nl),
      emit (ind9 @ ''Alignment: '' @ show_nat (store_align store) @ '' bytes'' @ nl)]"

text \<open>The loop of lines 95 to 99; \<open>argNum\<close> is an \<open>unsigned\<close>.\<close>

fun call_args_loop :: "32 word \<Rightarrow> Value list \<Rightarrow> string" where
  "call_args_loop argNum [] = []"
| "call_args_loop argNum (arg # rest) =
     ind9 @ ''Arg '' @ show_nat (unat (argNum + 1)) @ '': '' @ value_text arg @ nl
     @ call_args_loop (argNum + 1) rest"

text \<open>The loop of lines 103 to 106.\<close>

fun signature_loop :: "Argument list \<Rightarrow> string" where
  "signature_loop [] = []"
| "signature_loop (param # rest) =
     ind9 @ ''  '' @ bullet @ '' ''
     @ (if hasName (arg_name param) then getName (arg_name param) else ''unnamed'')
     @ '' : '' @ arg_type param @ nl
     @ signature_loop rest"

definition function_call :: "CallInst \<Rightarrow> unit res" where
  "function_call call =
     (case getCalledFunction call of
        Some callee \<Rightarrow> stmts
          [emit (ind6 @ glyph_telephone @ '' Function Call: '' @ getName (callee_name callee)
                 @ ''()'' @ nl),
           emit (ind9 @ ''Arguments: '' @ show_nat (length (call_args call)) @ nl),
           emit (call_args_loop 0 (call_args call)),
           emit (ind9 @ ''Target Function Signature:'' @ nl),
           emit (signature_loop (callee_args callee))]
      | None \<Rightarrow> stmts
          [emit (ind6 @ glyph_telephone @ '' Indirect Function Call'' @ nl),
           emit (ind9 @ ''Target: '' @ value_text (getCalledOperand call) @ nl)])"

definition branch :: "BranchInst \<Rightarrow> unit res" where
  "branch br =
     (case br of
        Conditional cond s0 s1 \<Rightarrow> stmts
          [emit (ind6 @ glyph_shuffle @ '' Conditional Branch'' @ nl),
           emit (ind9 @ ''Condition: '' @ value_text cond @ nl),
           emit (ind9 @ ''True Block: '' @ getName s0 @ nl),
           emit (ind9 @ ''False Block: '' @ getName s1 @ nl)]
      | Unconditional s0 \<Rightarrow> stmts
          [emit (ind6 @ glyph_right_arrow @ ''  Unconditional Branch'' @ nl),
           emit (ind9 @ ''Target: '' @ getName s0 @ nl)])"

definition return_statement :: "ReturnInst \<Rightarrow> unit res" where
  "return_statement ret =
     (case getReturnValue ret of
        Some retVal \<Rightarrow> stmts
          [emit (ind6 @ glyph_back @ '' Return Statement'' @ nl),
           emit (ind9 @ ''Type: '' @ value_type retVal @ nl),
           (if hasName (value_name retVal)
            then emit (ind9 @ ''Value: '' @ getName (value_name retVal) @ nl)
            else stmts
              [emit (ind9 @ ''Value: (unnamed temporary)'' @ nl),
               (case value_class retVal of
                  IsInstruction \<Rightarrow> emit (ind9 @ ''Source: '' @ value_text retVal @ nl)
                | IsConstantInt c \<Rightarrow> emit (ind9 @ ''Constant: '' @ show_int (sint c) @ nl)
                | IsOtherValue \<Rightarrow> emit [])])]
      | None \<Rightarrow> emit (ind6 @ glyph_back @ '' Return Statement (void)'' @ nl))"

text \<open>The \<open>switch\<close> of lines 148 to 156.\<close>

fun predicate_name :: "Predicate \<Rightarrow> string" where
  "predicate_name ICMP_EQ = ''Equal (==)''"
| "predicate_name ICMP_NE = ''Not Equal (!=)''"
| "predicate_name ICMP_SGT = ''Signed Greater Than (>)''"
| "predicate_name ICMP_SGE = ''Signed Greater or Equal (>=)''"
| "predicate_name ICMP_SLT = ''Signed Less Than (<)''"
| "predicate_name ICMP_SLE = ''Signed Less or Equal (<=)''"
| "predicate_name _ = ''Other''"

definition comparison :: "CmpInst \<Rightarrow> unit res" where
  "comparison cmp = stmts
     [emit (ind6 @ glyph_scales @ ''  Comparison Instruction'' @ nl),
      (if is_ICmpInst cmp
       then stmts
         [emit (ind9 @ ''Type: Integer Comparison'' @ nl),
          emit (ind9 @ ''Predicate: ''),
          emit (predicate_name (getPredicate cmp)),
          emit nl]
       else emit []),
      emit (ind9 @ ''Left Operand: '' @ value_text (cmp_operand0 cmp) @ nl),
      emit (ind9 @ ''Right Operand: '' @ value_text (cmp_operand1 cmp) @ nl)]"

definition cast_operation :: "Instruction \<Rightarrow> CastInst \<Rightarrow> unit res" where
  "cast_operation I cast = stmts
     [emit (ind6 @ glyph_cycle @ '' Cast Operation: '' @ getOpcodeName I @ nl),
      emit (ind9 @ ''From: '' @ getSrcTy cast @ nl),
      emit (ind9 @ ''To: '' @ getDestTy cast @ nl),
      emit (ind9 @ ''Source: '' @ value_text (cast_operand0 cast) @ nl)]"

text \<open>The loop of lines 171 to 173, \<open>i\<close> running below \<open>getNumOperands\<close>.\<close>

fun operands_loop :: "nat \<Rightarrow> Value list \<Rightarrow> string" where
  "operands_loop i [] = []"
| "operands_loop i (operand # rest) =
     ind9 @ ''Op['' @ show_nat i @ '']: '' @ value_text operand @ nl
     @ operands_loop (i + 1) rest"

definition other_operator :: "Instruction \<Rightarrow> unit res" where
  "other_operator I = stmts
     [emit (ind6 @ glyph_gear @ ''  Other Operator: '' @ getOpcodeName I @ nl),
      emit (ind9 @ ''Operands: '' @ show_nat (length (inst_operands I)) @ nl),
      emit (operands_loop 0 (inst_operands I))]"

definition unknown_instruction :: "Instruction \<Rightarrow> unit res" where
  "unknown_instruction I = stmts
     [emit (ind6 @ glyph_question @ '' Unknown Instruction Type'' @ nl),
      emit (ind9 @ ''Opcode: '' @ getOpcodeName I @ nl)]"

text \<open>The cascade of \<open>if (auto *x = dyn_cast<X>(&I)) ... else if ...\<close>.\<close>

definition analyze_instruction :: "DataLayout \<Rightarrow> Instruction \<Rightarrow> unit res" where
  "analyze_instruction DL I =
     (case dyn_cast_BinaryOperator I of Some binOp \<Rightarrow> binary_operation I binOp | None \<Rightarrow>
     (case dyn_cast_AllocaInst I of Some alloca \<Rightarrow> stack_allocation DL alloca | None \<Rightarrow>
     (case dyn_cast_LoadInst I of Some load \<Rightarrow> load_from_memory load | None \<Rightarrow>
     (case dyn_cast_StoreInst I of Some store \<Rightarrow> store_to_memory store | None \<Rightarrow>
     (case dyn_cast_CallInst I of Some call \<Rightarrow> function_call call | None \<Rightarrow>
     (case dyn_cast_BranchInst I of Some br \<Rightarrow> branch br | None \<Rightarrow>
     (case dyn_cast_ReturnInst I of Some ret \<Rightarrow> return_statement ret | None \<Rightarrow>
     (case dyn_cast_CmpInst I of Some cmp \<Rightarrow> comparison cmp | None \<Rightarrow>
     (case dyn_cast_CastInst I of Some cast \<Rightarrow> cast_operation I cast | None \<Rightarrow>
     (if dyn_cast_Operator I then other_operator I
      else unknown_instruction I))))))))))"

text \<open>
  The kind of an instruction is the branch of the cascade that it takes: the conditions of
  the cascade, in its order, without the bodies.
\<close>

datatype Kind =
    BinaryArithmetic | StackAllocation | Load | Store | Call | Branch | Return
  | Compare | Cast | GenericOperator | Unknown

definition classify :: "Instruction \<Rightarrow> Kind" where
  "classify I =
     (if dyn_cast_BinaryOperator I \<noteq> None then BinaryArithmetic
      else if dyn_cast_AllocaInst I \<noteq> None then StackAllocation
      else if dyn_cast_LoadInst I \<noteq> None then Load
      else if dyn_cast_StoreInst I \<noteq> None then Store
      else if dyn_cast_CallInst I \<noteq> None then Call
      else if dyn_cast_BranchInst I \<noteq> None then Branch
      else if dyn_cast_ReturnInst I \<noteq> None then Return
      else if dyn_cast_CmpInst I \<noteq> None then Compare
      else if dyn_cast_CastInst I \<noteq> None then Cast
      else if dyn_cast_Operator I then GenericOperator
      else Unknown)"

text \<open>The structural test that guards the branch of each kind; the last branch has
  none.\<close>

fun matches :: "Kind \<Rightarrow> Instruction \<Rightarrow> bool" where
  "matches BinaryArithmetic I = (dyn_cast_BinaryOperator I \<noteq> None)"
| "matches StackAllocation I = (dyn_cast_AllocaInst I \<noteq> None)"
| "matches Load I = (dyn_cast_LoadInst I \<noteq> None)"
| "matches Store I = (dyn_cast_StoreInst I \<noteq> None)"
| "matches Call I = (dyn_cast_CallInst I \<noteq> None)"
| "matches Branch I = (dyn_cast_BranchInst I \<noteq> None)"
| "matches Return I = (dyn_cast_ReturnInst I \<noteq> None)"
| "matches Compare I = (dyn_cast_CmpInst I \<noteq> None)"
| "matches Cast I = (dyn_cast_CastInst I \<noteq> None)"
| "matches GenericOperator I = dyn_cast_Operator I"
| "matches Unknown I = True"

text \<open>The order in which the cascade tries the kinds.\<close>

definition precedence :: "Kind list" where
  "precedence =
     [BinaryArithmetic, StackAllocation, Load, Store, Call, Branch, Return, Compare, Cast,
      GenericOperator, Unknown]"

text \<open>The body of the branch of a kind on an instruction, when the instruction passes
  the test of that branch.\<close>

fun branch_body :: "DataLayout \<Rightarrow> Instruction \<Rightarrow> Kind \<Rightarrow> unit res option" where
  "branch_body DL I BinaryArithmetic =
     map_option (binary_operation I) (dyn_cast_BinaryOperator I)"
| "branch_body DL I StackAllocation =
     map_option (stack_allocation DL) (dyn_cast_AllocaInst I)"
| "branch_body DL I Load = map_option load_from_memory (dyn_cast_LoadInst I)"
| "branch_body DL I Store = map_option store_to_memory (dyn_cast_StoreInst I)"
| "branch_body DL I Call = map_option function_call (dyn_cast_CallInst I)"
| "branch_body DL I Branch = map_option branch (dyn_cast_BranchInst I)"
| "branch_body DL I Return = map_option return_statement (dyn_cast_ReturnInst I)"
| "branch_body DL I Compare = map_option comparison (dyn_cast_CmpInst I)"
| "branch_body DL I Cast = map_option (cast_operation I) (dyn_cast_CastInst I)"
| "branch_body DL I GenericOperator =
     (if dyn_cast_Operator I then Some (other_operator I) else None)"
| "branch_body DL I Unknown = Some (unknown_instruction I)"

section \<open>The traversal (lines 15 to 197)\<close>

text \<open>The loop over the instructions of a block, lines 61 to 180; \<open>instCount\<close> is an
  \<open>unsigned\<close>.\<close>

fun instructions_loop :: "DataLayout \<Rightarrow> 32 word \<Rightarrow> Instruction list \<Rightarrow> unit res" where
  "instructions_loop DL instCount [] = emit []"
| "instructions_loop DL instCount (I # rest) = stmts
     [emit (bar @ ''  ['' @ show_nat (unat (instCount + 1)) @ ''] '' @ inst_text I @ nl),
      analyze_instruction DL I,
      emit (bar @ nl),
      instructions_loop DL (instCount + 1) rest]"

text \<open>The body of the loop over the blocks up to the end of the instruction loop, lines
  56 to 180, with the value of \<open>bbCount\<close> after its increment.\<close>

definition basic_block :: "DataLayout \<Rightarrow> 32 word \<Rightarrow> BasicBlock \<Rightarrow> unit res" where
  "basic_block DL bbCount BB = stmts
     [emit (''   '' @ box_down_right @ box_horizontal @ '' Basic Block #''
            @ show_nat (unat bbCount) @ '': ''
            @ (if hasName (bb_name BB) then getName (bb_name BB) else ''unnamed'') @ nl),
      emit (bar @ ''  Instructions: '' @ show_nat (length (bb_instructions BB)) @ nl),
      emit (bar @ nl),
      instructions_loop DL 0 (bb_instructions BB)]"

definition interior_separator :: string where
  "interior_separator =
     ''   '' @ box_vertical_right @ concat (replicate 53 box_horizontal) @ nl"

definition final_separator :: string where
  "final_separator = ''   '' @ box_up_right @ concat (replicate 53 box_horizontal) @ nl"

text \<open>The loop over the blocks of a function, lines 53 to 188. The blocks of a function
  are distinct objects, so \<open>&BB != &F.back()\<close> holds exactly when blocks remain after
  \<open>BB\<close>.\<close>

fun basic_blocks_loop :: "DataLayout \<Rightarrow> 32 word \<Rightarrow> BasicBlock list \<Rightarrow> unit res" where
  "basic_blocks_loop DL bbCount [] = emit []"
| "basic_blocks_loop DL bbCount (BB # rest) = stmts
     [basic_block DL (bbCount + 1) BB,
      (if rest \<noteq> [] then emit interior_separator else emit final_separator),
      basic_blocks_loop DL (bbCount + 1) rest]"

text \<open>The loops of lines 30 to 33 and 46 to 49.\<close>

fun arguments_loop :: "Argument list \<Rightarrow> string" where
  "arguments_loop [] = []"
| "arguments_loop (arg # rest) =
     ''     '' @ bullet @ '' ''
     @ (if hasName (arg_name arg) then getName (arg_name arg) else ''unnamed'')
     @ '' : '' @ arg_type arg @ nl
     @ arguments_loop rest"

text \<open>Lines 26 to 35.\<close>

definition function_declaration :: "Function \<Rightarrow> unit res" where
  "function_declaration F = stmts
     [emit (glyph_clipboard @ '' External Function Declaration: '' @ getName (fn_name F)
            @ ''()'' @ nl),
      emit (''   '' @ arrow_tip @ '' Return Type: '' @ getReturnType F @ nl),
      emit (''   '' @ arrow_tip @ '' Parameters: '' @ show_nat (length (fn_args F)) @ nl),
      (if length (fn_args F) > 0 then emit (arguments_loop (fn_args F)) else emit []),
      emit nl]"

text \<open>Lines 39 to 51.\<close>

definition definition_header :: "Function \<Rightarrow> unit res" where
  "definition_header F = stmts
     [emit (glyph_wrench @ '' Function Definition: '' @ getName (fn_name F) @ ''()'' @ nl),
      emit (''   '' @ arrow_tip @ '' Return Type: '' @ getReturnType F @ nl),
      emit (''   '' @ arrow_tip @ '' Parameters: '' @ show_nat (length (fn_args F)) @ nl),
      emit (''   '' @ arrow_tip @ '' Basic Blocks: '' @ show_nat (length (fn_blocks F)) @ nl),
      (if length (fn_args F) > 0
       then stmts
         [emit (''   '' @ arrow_tip @ '' Function Arguments:'' @ nl),
          emit (arguments_loop (fn_args F))]
       else emit []),
      emit nl]"

definition function_footer :: string where
  "function_footer = nl @ concat (replicate 78 box_dbl_horizontal) @ nl @ nl"

text \<open>The body of the loop over the functions, lines 24 to 190.\<close>

definition analyze_function :: "DataLayout \<Rightarrow> Function \<Rightarrow> unit res" where
  "analyze_function DL F =
     (if isDeclaration F then function_declaration F
      else stmts
        [definition_header F,
         basic_blocks_loop DL 0 (fn_blocks F),
         emit function_footer])"

fun functions_loop :: "DataLayout \<Rightarrow> Function list \<Rightarrow> unit res" where
  "functions_loop DL [] = emit []"
| "functions_loop DL (F # rest) = stmts [analyze_function DL F, functions_loop DL rest]"

text \<open>Lines 16 to 21 and 193 to 194.\<close>

definition title_box :: string where
  "title_box =
     nl
     @ box_dbl_down_right @ concat (replicate 78 box_dbl_horizontal) @ box_dbl_down_left @ nl
     @ box_dbl_vertical @ ''                           '' @ glyph_magnifier
       @ '' LLVM MODULE ANALYSIS                            '' @ box_dbl_vertical @ nl
     @ box_dbl_up_right @ concat (replicate 78 box_dbl_horizontal) @ box_dbl_up_left @ nl"

definition opening_banner :: "Module \<Rightarrow> string" where
  "opening_banner M =
     title_box
     @ glyph_folder @ '' Module: '' @ getModuleIdentifier M @ nl
     @ concat (replicate 78 box_dbl_horizontal) @ nl @ nl"

definition completion_banner :: string where
  "completion_banner =
     glyph_check @ '' Analysis Complete!'' @ nl
     @ concat (replicate 79 box_dbl_horizontal) @ nl @ nl"

datatype PreservedAnalyses = PreservedAnalyses_all | PreservedAnalyses_none

text \<open>The text of one run and its outcome: the value of the \<open>return\<close> of line 196 when
  the statements before it completed.\<close>

definition report :: "Module \<Rightarrow> PreservedAnalyses res" where
  "report M =
     (case stmts
        [emit (opening_banner M),
         functions_loop (getDataLayout M) (module_functions M),
         emit completion_banner]
      of (out, Inl e) \<Rightarrow> (out, Inl e)
       | (out, Inr _) \<Rightarrow> (out, Inr PreservedAnalyses_all))"

text \<open>
  What a run can touch: the module it is given by reference, and the diagnostic stream.
  \<open>run\<close> appends the text of the report to the stream and hands its outcome to the host.
\<close>

record State =
  ir :: Module
  errs :: string

definition run :: "State \<Rightarrow> (error + PreservedAnalyses) \<times> State" where
  "run s = (case report (ir s) of (out, r) \<Rightarrow> (r, s\<lparr>errs := errs s @ out\<rparr>))"

section \<open>Where a run fails\<close>

text \<open>An instruction that takes the stack-allocation branch with an allocated type to
  which the data layout gives no size; a block, a function and a module that contain
  one.\<close>

definition unsized_alloca :: "DataLayout \<Rightarrow> Instruction \<Rightarrow> bool" where
  "unsized_alloca DL I =
     (classify I = StackAllocation \<and>
      (case dyn_cast_AllocaInst I of
         Some alloca \<Rightarrow> DL (getAllocatedType alloca) = None
       | None \<Rightarrow> False))"

definition block_fails :: "DataLayout \<Rightarrow> BasicBlock \<Rightarrow> bool" where
  "block_fails DL BB = list_ex (unsized_alloca DL) (bb_instructions BB)"

definition function_fails :: "DataLayout \<Rightarrow> Function \<Rightarrow> bool" where
  "function_fails DL F = list_ex (block_fails DL) (fn_blocks F)"

definition module_fails :: "Module \<Rightarrow> bool" where
  "module_fails M = list_ex (function_fails (getDataLayout M)) (module_functions M)"

text \<open>The position of a kind in the cascade.\<close>

fun rank :: "Kind \<Rightarrow> nat" where
  "rank BinaryArithmetic = 0"
| "rank StackAllocation = 1"
| "rank Load = 2"
| "rank Store = 3"
| "rank Call = 4"
| "rank Branch = 5"
| "rank Return = 6"
| "rank Compare = 7"
| "rank Cast = 8"
| "rank GenericOperator = 9"
| "rank Unknown = 10"

section \<open>Sample IR\<close>

text \<open>An instruction on which every cast of the cascade fails but the one to
  \<open>Operator\<close>, which succeeds on every instruction of the host.\<close>

definition instruction :: "string \<Rightarrow> string \<Rightarrow> Value list \<Rightarrow> Instruction" where
  "instruction txt opcode ops =
     \<lparr>inst_text = txt, getOpcodeName = opcode, inst_operands = ops,
      dyn_cast_BinaryOperator = None, dyn_cast_AllocaInst = None, dyn_cast_LoadInst = None,
      dyn_cast_StoreInst = None, dyn_cast_CallInst = None, dyn_cast_BranchInst = None,
      dyn_cast_ReturnInst = None, dyn_cast_CmpInst = None, dyn_cast_CastInst = None,
      dyn_cast_Operator = True\<rparr>"

definition sample_layout :: DataLayout where
  "sample_layout ty =
     (if ty = ''i32'' then Some 4 else if ty = ''i64'' then Some 8
      else if ty = ''ptr'' then Some 8 else None)"

definition i32_x :: Value where
  "i32_x = \<lparr>value_name = Some ''x'', value_type = ''i32'', value_text = ''i32 %x'',
            value_class = IsOtherValue\<rparr>"

definition i32_42 :: Value where
  "i32_42 = \<lparr>value_name = None, value_type = ''i32'', value_text = ''i32 42'',
             value_class = IsConstantInt 42\<rparr>"

definition label_0 :: Value where
  "label_0 = \<lparr>value_name = None, value_type = ''label'', value_text = ''label %0'',
              value_class = IsOtherValue\<rparr>"

definition float_a :: Value where
  "float_a = \<lparr>value_name = Some ''a'', value_type = ''float'', value_text = ''float %a'',
              value_class = IsOtherValue\<rparr>"

definition float_b :: Value where
  "float_b = \<lparr>value_name = Some ''b'', value_type = ''float'', value_text = ''float %b'',
              value_class = IsOtherValue\<rparr>"

text \<open>\<open>%c = sext i32 %x to i64\<close>\<close>

definition sext_example :: Instruction where
  "sext_example =
     (instruction ''  %c = sext i32 %x to i64'' ''sext'' [i32_x])
       \<lparr>dyn_cast_CastInst :=
          Some \<lparr>getSrcTy = ''i32'', getDestTy = ''i64'', cast_operand0 = i32_x\<rparr>\<rparr>"

text \<open>\<open>ret void\<close> and \<open>ret i32 42\<close>\<close>

definition ret_void :: Instruction where
  "ret_void =
     (instruction ''  ret void'' ''ret'' [])
       \<lparr>dyn_cast_ReturnInst := Some \<lparr>getReturnValue = None\<rparr>\<rparr>"

definition ret_42 :: Instruction where
  "ret_42 =
     (instruction ''  ret i32 42'' ''ret'' [i32_42])
       \<lparr>dyn_cast_ReturnInst := Some \<lparr>getReturnValue = Some i32_42\<rparr>\<rparr>"

text \<open>\<open>br label %0\<close>, a branch to a block that has no name\<close>

definition br_unnamed :: Instruction where
  "br_unnamed =
     (instruction ''  br label %0'' ''br'' [label_0])
       \<lparr>dyn_cast_BranchInst := Some (Unconditional None)\<rparr>"

text \<open>\<open>%c = fcmp olt float %a, %b\<close>\<close>

definition fcmp_example :: Instruction where
  "fcmp_example =
     (instruction ''  %c = fcmp olt float %a, %b'' ''fcmp'' [float_a, float_b])
       \<lparr>dyn_cast_CmpInst :=
          Some \<lparr>is_ICmpInst = False, getPredicate = FCMP_OLT, cmp_operand0 = float_a,
                cmp_operand1 = float_b\<rparr>\<rparr>"

text \<open>\<open>%c = icmp sgt i32 %x, 0\<close> and \<open>%c = icmp ult i32 %x, 0\<close>\<close>

definition i32_0 :: Value where
  "i32_0 = \<lparr>value_name = None, value_type = ''i32'', value_text = ''i32 0'',
            value_class = IsConstantInt 0\<rparr>"

definition icmp_sgt_example :: Instruction where
  "icmp_sgt_example =
     (instruction ''  %c = icmp sgt i32 %x, 0'' ''icmp'' [i32_x, i32_0])
       \<lparr>dyn_cast_CmpInst :=
          Some \<lparr>is_ICmpInst = True, getPredicate = ICMP_SGT, cmp_operand0 = i32_x,
                cmp_operand1 = i32_0\<rparr>\<rparr>"

definition icmp_ult_example :: Instruction where
  "icmp_ult_example =
     (instruction ''  %c = icmp ult i32 %x, 0'' ''icmp'' [i32_x, i32_0])
       \<lparr>dyn_cast_CmpInst :=
          Some \<lparr>is_ICmpInst = True, getPredicate = ICMP_ULT, cmp_operand0 = i32_x,
                cmp_operand1 = i32_0\<rparr>\<rparr>"

text \<open>\<open>%a = alloca i32, align 4\<close>, and an allocation of a type to which the sample
  layout gives no size\<close>

definition alloca_i32 :: Instruction where
  "alloca_i32 =
     (instruction ''  %a = alloca i32, align 4'' ''alloca'' [])
       \<lparr>dyn_cast_AllocaInst := Some \<lparr>getAllocatedType = ''i32'', alloca_align = 4\<rparr>\<rparr>"

definition alloca_opaque :: Instruction where
  "alloca_opaque =
     (instruction ''  %p = alloca %struct.S, align 1'' ''alloca'' [])
       \<lparr>dyn_cast_AllocaInst :=
          Some \<lparr>getAllocatedType = ''%struct.S'', alloca_align = 1\<rparr>\<rparr>"

text \<open>\<open>declare i32 @puts(ptr)\<close>\<close>

definition puts_decl :: Function where
  "puts_decl =
     \<lparr>fn_name = Some ''puts'', getReturnType = ''i32'',
      fn_args = [\<lparr>arg_name = None, arg_type = ''ptr''\<rparr>], fn_blocks = []\<rparr>"

text \<open>A definition with two blocks, the second without a name:
  \<open>define i32 @f(i32 %x) { entry: %a = alloca i32, align 4  br label %0  0: ret i32 42 }\<close>\<close>

definition f_entry :: BasicBlock where
  "f_entry = \<lparr>bb_name = Some ''entry'', bb_instructions = [alloca_i32, br_unnamed]\<rparr>"

definition f_exit :: BasicBlock where
  "f_exit = \<lparr>bb_name = None, bb_instructions = [ret_42]\<rparr>"

definition f_def :: Function where
  "f_def =
     \<lparr>fn_name = Some ''f'', getReturnType = ''i32'',
      fn_args = [\<lparr>arg_name = Some ''x'', arg_type = ''i32''\<rparr>],
      fn_blocks = [f_entry, f_exit]\<rparr>"

text \<open>A definition whose only block allocates the unsized type:
  \<open>define void @g() { %a = alloca i32, align 4  %p = alloca %struct.S, align 1
  ret void }\<close>\<close>

definition g_body :: BasicBlock where
  "g_body = \<lparr>bb_name = None, bb_instructions = [alloca_i32, alloca_opaque, ret_void]\<rparr>"

definition g_def :: Function where
  "g_def =
     \<lparr>fn_name = Some ''g'', getReturnType = ''void'', fn_args = [], fn_blocks = [g_body]\<rparr>"

definition empty_module :: Module where
  "empty_module =
     \<lparr>getModuleIdentifier = ''empty.ll'', getDataLayout = sample_layout,
      module_functions = []\<rparr>"

definition good_module :: Module where
  "good_module =
     \<lparr>getModuleIdentifier = ''good.ll'', getDataLayout = sample_layout,
      module_functions = [puts_decl, f_def]\<rparr>"

definition bad_module :: Module where
  "bad_module =
     \<lparr>getModuleIdentifier = ''bad.ll'', getDataLayout = sample_layout,
      module_functions = [f_def, g_def, puts_decl]\<rparr>"

section \<open>Statements and their outcome\<close>

lemma fst_emit [simp]: "fst (emit s) = s"
  by (simp add: emit_def)

lemma snd_emit [simp]: "snd (emit s) = Inr ()"
  by (simp add: emit_def)

lemma next_stmt_unfold:
  "next_stmt m k =
     (case snd m of Inl e \<Rightarrow> (fst m, Inl e) | Inr u \<Rightarrow> (fst m @ fst k, snd k))"
  by (cases m; cases k) (simp add: next_stmt_def split: sum.splits)

lemma next_stmt_emit [simp]: "next_stmt (emit s) k = (s @ fst k, snd k)"
  by (simp add: next_stmt_unfold)

lemma binary_operation_completes: "snd (binary_operation I b) = Inr ()"
  by (simp add: binary_operation_def)

lemma load_completes: "snd (load_from_memory l) = Inr ()"
  by (simp add: load_from_memory_def)

lemma store_completes: "snd (store_to_memory l) = Inr ()"
  by (simp add: store_to_memory_def)

lemma call_completes: "snd (function_call c) = Inr ()"
  by (simp add: function_call_def split: option.splits)

lemma branch_completes: "snd (branch b) = Inr ()"
  by (simp add: branch_def split: BranchInst.splits)

lemma return_completes: "snd (return_statement r) = Inr ()"
  by (simp add: return_statement_def next_stmt_unfold split: option.splits ValueClass.splits)

lemma comparison_completes: "snd (comparison c) = Inr ()"
  by (simp add: comparison_def next_stmt_unfold)

lemma cast_completes: "snd (cast_operation I c) = Inr ()"
  by (simp add: cast_operation_def)

lemma other_completes: "snd (other_operator I) = Inr ()"
  by (simp add: other_operator_def)

lemma unknown_completes: "snd (unknown_instruction I) = Inr ()"
  by (simp add: unknown_instruction_def)

lemma stack_allocation_outcome:
  "snd (stack_allocation DL a) = (if DL (getAllocatedType a) = None then Inl Fatal else Inr ())"
  by (simp add: stack_allocation_def getAllocationSize_def abort_def next_stmt_unfold split: option.splits)

lemmas branch_completes_all = binary_operation_completes load_completes store_completes call_completes
  branch_completes return_completes comparison_completes cast_completes other_completes unknown_completes

lemma analyze_instruction_outcome:
  "snd (analyze_instruction DL I) = (if unsized_alloca DL I then Inl Fatal else Inr ())"
  by (simp add: analyze_instruction_def unsized_alloca_def classify_def branch_completes_all
      stack_allocation_outcome split: option.splits)

lemma analyze_instruction_branch_body:
  "branch_body DL I (classify I) = Some (analyze_instruction DL I)"
  by (auto simp add: analyze_instruction_def classify_def split: option.splits)

lemma next_stmt_emit_Nil [simp]: "next_stmt m (emit []) = m"
  by (cases m) (simp add: next_stmt_def emit_def split: sum.splits)

lemma instructions_loop_outcome:
  "snd (instructions_loop DL c Is) =
     (if list_ex (unsized_alloca DL) Is then Inl Fatal else Inr ())"
  by (induction Is arbitrary: c)
     (simp_all add: next_stmt_unfold analyze_instruction_outcome)

lemma instructions_loop_failing:
  "\<not> list_ex (unsized_alloca DL) Is1 \<Longrightarrow> unsized_alloca DL I \<Longrightarrow>
   fst (instructions_loop DL c (Is1 @ I # Is2)) =
     fst (instructions_loop DL c Is1)
     @ bar @ ''  ['' @ show_nat (unat (c + of_nat (Suc (length Is1)))) @ ''] '' @ inst_text I @ nl
     @ fst (analyze_instruction DL I)"
proof (induction Is1 arbitrary: c)
  case Nil
  then show ?case
    by (simp add: next_stmt_unfold analyze_instruction_outcome)
next
  case (Cons J Is1)
  have ok: "\<not> unsized_alloca DL J" "\<not> list_ex (unsized_alloca DL) Is1"
    using Cons.prems by simp_all
  have shift: "c + 1 + of_nat (Suc n) = c + of_nat (Suc (Suc n))" for n
    by simp
  show ?case
    using ok Cons.IH [OF ok(2) Cons.prems(2), of "c + 1"]
    using Cons.prems(2)
    by (simp add: next_stmt_unfold analyze_instruction_outcome instructions_loop_outcome
        shift del: of_nat_Suc)
qed

lemma basic_block_outcome:
  "snd (basic_block DL c BB) = (if block_fails DL BB then Inl Fatal else Inr ())"
  by (simp add: basic_block_def block_fails_def instructions_loop_outcome)

lemma basic_blocks_loop_outcome:
  "snd (basic_blocks_loop DL c bbs) =
     (if list_ex (block_fails DL) bbs then Inl Fatal else Inr ())"
  by (induction bbs arbitrary: c)
     (simp_all add: next_stmt_unfold basic_block_outcome)

lemma basic_blocks_loop_text:
  "\<not> list_ex (block_fails DL) bbs \<Longrightarrow>
   fst (basic_blocks_loop DL c bbs) =
     concat (map (\<lambda>k. fst (basic_block DL (c + of_nat (Suc k)) (bbs ! k))
                      @ (if Suc k < length bbs then interior_separator else final_separator))
                 [0..<length bbs])"
proof (induction bbs arbitrary: c)
  case Nil
  then show ?case by simp
next
  case (Cons BB rest)
  have ok: "\<not> block_fails DL BB" "\<not> list_ex (block_fails DL) rest"
    using Cons.prems by simp_all
  have shift: "c + 1 + of_nat (Suc k) = c + of_nat (Suc (Suc k))" for k
    by simp
  have one: "of_nat (Suc 0) = (1 :: 32 word)"
    by simp
  show ?case
    using ok Cons.IH [OF ok(2), of "c + 1"]
    by (simp add: next_stmt_unfold basic_block_outcome basic_blocks_loop_outcome
        map_upt_Suc shift one del: upt_Suc of_nat_Suc)
qed


lemma basic_blocks_loop_failing:
  "\<not> list_ex (block_fails DL) Bs1 \<Longrightarrow> block_fails DL B \<Longrightarrow>
   fst (basic_blocks_loop DL c (Bs1 @ B # Bs2)) =
     concat (map (\<lambda>k. fst (basic_block DL (c + of_nat (Suc k)) (Bs1 ! k)) @ interior_separator)
                 [0..<length Bs1])
     @ fst (basic_block DL (c + of_nat (Suc (length Bs1))) B)"
proof (induction Bs1 arbitrary: c)
  case Nil
  then show ?case
    by (simp add: next_stmt_unfold basic_block_outcome)
next
  case (Cons BB rest)
  have ok: "\<not> block_fails DL BB" "\<not> list_ex (block_fails DL) rest"
    using Cons.prems by simp_all
  have shift: "c + 1 + of_nat (Suc k) = c + of_nat (Suc (Suc k))" for k
    by simp
  have one: "of_nat (Suc 0) = (1 :: 32 word)"
    by simp
  show ?case
    using ok Cons.prems(2) Cons.IH [OF ok(2) Cons.prems(2), of "c + 1"]
    by (simp add: next_stmt_unfold basic_block_outcome basic_blocks_loop_outcome
        map_upt_Suc shift one del: upt_Suc of_nat_Suc)
qed

lemma analyze_function_outcome:
  "snd (analyze_function DL F) = (if function_fails DL F then Inl Fatal else Inr ())"
  by (simp add: analyze_function_def function_declaration_def definition_header_def
      isDeclaration_def function_fails_def next_stmt_unfold basic_blocks_loop_outcome)

lemma functions_loop_outcome:
  "snd (functions_loop DL Fs) =
     (if list_ex (function_fails DL) Fs then Inl Fatal else Inr ())"
  by (induction Fs) (simp_all add: next_stmt_unfold analyze_function_outcome)

lemma functions_loop_failing:
  "\<not> list_ex (function_fails DL) Fs1 \<Longrightarrow> function_fails DL F \<Longrightarrow>
   fst (functions_loop DL (Fs1 @ F # Fs2)) =
     concat (map (\<lambda>F. fst (analyze_function DL F)) Fs1) @ fst (analyze_function DL F)"
  by (induction Fs1)
     (simp_all add: next_stmt_unfold analyze_function_outcome functions_loop_outcome)

lemma report_outcome:
  "snd (report M) = (if module_fails M then Inl Fatal else Inr PreservedAnalyses_all)"
  by (simp add: report_def module_fails_def next_stmt_unfold functions_loop_outcome
      split: prod.splits sum.splits)


lemma stack_allocation_unsized:
  "DL (getAllocatedType alloca) = None \<Longrightarrow>
   stack_allocation DL alloca =
     (ind6 @ glyph_package @ '' Stack Allocation (alloca)'' @ nl
      @ ind9 @ ''Type: '' @ getAllocatedType alloca @ nl
      @ ind9 @ ''Size: '',
      Inl Fatal)"
  by (simp add: stack_allocation_def getAllocationSize_def abort_def next_stmt_unfold)

lemma basic_block_text:
  "fst (basic_block DL c BB) =
     ''   '' @ box_down_right @ box_horizontal @ '' Basic Block #'' @ show_nat (unat c) @ '': ''
     @ (case bb_name BB of Some name \<Rightarrow> name | None \<Rightarrow> ''unnamed'') @ nl
     @ bar @ ''  Instructions: '' @ show_nat (length (bb_instructions BB)) @ nl
     @ bar @ nl
     @ fst (instructions_loop DL 0 (bb_instructions BB))"
  by (simp add: basic_block_def hasName_def getName_def split: option.splits)

lemma analyze_function_failing:
  "function_fails DL F \<Longrightarrow>
   fst (analyze_function DL F) =
     fst (definition_header F) @ fst (basic_blocks_loop DL 0 (fn_blocks F))"
proof -
  assume fails: "function_fails DL F"
  then have "fn_blocks F \<noteq> []"
    by (auto simp add: function_fails_def)
  moreover have "snd (definition_header F) = Inr ()"
    by (simp add: definition_header_def next_stmt_unfold)
  moreover have "snd (basic_blocks_loop DL 0 (fn_blocks F)) = Inl Fatal"
    using fails by (simp add: basic_blocks_loop_outcome function_fails_def)
  ultimately show ?thesis
    by (simp add: analyze_function_def isDeclaration_def next_stmt_unfold)
qed

text \<open>Decimal numbers and sample functions used at concrete inputs.\<close>

lemma show_nat_small:
  "show_nat 1 = ''1''" "show_nat 2 = ''2''" "show_nat 3 = ''3''"
  "show_nat (Suc 0) = ''1''" "show_nat (Suc (Suc 0)) = ''2''"
  "show_nat (Suc (Suc (Suc 0))) = ''3''" "show_nat 4 = ''4''"
  by (simp_all add: show_nat.simps)

lemma show_42: "show_int 42 = ''42''"
  by (simp add: show_int_def show_nat.simps)

lemma f_def_completes: "\<not> function_fails sample_layout f_def"
  by (simp add: function_fails_def f_def_def
        block_fails_def f_entry_def f_exit_def unsized_alloca_def classify_def alloca_i32_def
        br_unnamed_def ret_42_def instruction_def sample_layout_def)

lemma instructions_loop_text:
  "\<not> list_ex (unsized_alloca DL) Is \<Longrightarrow>
   fst (instructions_loop DL c Is) =
     concat (map (\<lambda>j. bar @ ''  ['' @ show_nat (unat (c + of_nat (Suc j))) @ ''] ''
                        @ inst_text (Is ! j) @ nl
                      @ fst (analyze_instruction DL (Is ! j))
                      @ bar @ nl)
                 [0..<length Is])"
proof (induction Is arbitrary: c)
  case Nil
  then show ?case by simp
next
  case (Cons I rest)
  have ok: "\<not> unsized_alloca DL I" "\<not> list_ex (unsized_alloca DL) rest"
    using Cons.prems by simp_all
  have shift: "c + 1 + of_nat (Suc j) = c + of_nat (Suc (Suc j))" for j
    by simp
  have one: "of_nat (Suc 0) = (1 :: 32 word)"
    by simp
  show ?case
    using ok Cons.IH [OF ok(2), of "c + 1"]
    by (simp add: next_stmt_unfold analyze_instruction_outcome instructions_loop_outcome
        map_upt_Suc shift one del: upt_Suc of_nat_Suc)
qed

lemma basic_block_full_text:
  "\<not> block_fails DL BB \<Longrightarrow>
   fst (basic_block DL c BB) =
     ''   '' @ box_down_right @ box_horizontal @ '' Basic Block #'' @ show_nat (unat c) @ '': ''
       @ (case bb_name BB of Some name \<Rightarrow> name | None \<Rightarrow> ''unnamed'') @ nl
     @ bar @ ''  Instructions: '' @ show_nat (length (bb_instructions BB)) @ nl
     @ bar @ nl
     @ concat (map (\<lambda>j. bar @ ''  ['' @ show_nat (unat (of_nat (Suc j) :: 32 word)) @ ''] ''
                          @ inst_text (bb_instructions BB ! j) @ nl
                        @ fst (analyze_instruction DL (bb_instructions BB ! j))
                        @ bar @ nl)
                   [0..<length (bb_instructions BB)])"
  using instructions_loop_text [of DL "bb_instructions BB" 0]
  by (simp add: basic_block_text block_fails_def del: of_nat_Suc)

lemma basic_blocks_loop_full_text:
  assumes "\<not> list_ex (block_fails DL) bbs"
  shows "fst (basic_blocks_loop DL 0 bbs) =
     concat (map (\<lambda>k.
         ''   '' @ box_down_right @ box_horizontal @ '' Basic Block #''
           @ show_nat (unat (of_nat (Suc k) :: 32 word)) @ '': ''
           @ (case bb_name (bbs ! k) of Some name \<Rightarrow> name | None \<Rightarrow> ''unnamed'') @ nl
         @ bar @ ''  Instructions: '' @ show_nat (length (bb_instructions (bbs ! k))) @ nl
         @ bar @ nl
         @ concat (map (\<lambda>j. bar @ ''  ['' @ show_nat (unat (of_nat (Suc j) :: 32 word))
                              @ ''] '' @ inst_text (bb_instructions (bbs ! k) ! j) @ nl
                            @ fst (analyze_instruction DL (bb_instructions (bbs ! k) ! j))
                            @ bar @ nl)
                       [0..<length (bb_instructions (bbs ! k))])
         @ (if Suc k < length bbs
            then ''   '' @ [CHR 0xE2, CHR 0x94, CHR 0x9C]
                 @ concat (replicate 53 [CHR 0xE2, CHR 0x94, CHR 0x80]) @ [CHR 0x0A]
            else ''   '' @ [CHR 0xE2, CHR 0x94, CHR 0x94]
                 @ concat (replicate 53 [CHR 0xE2, CHR 0x94, CHR 0x80]) @ [CHR 0x0A]))
       [0..<length bbs])"
proof -
  have each: "\<not> block_fails DL (bbs ! k)" if "k < length bbs" for k
    using assms that by (auto simp add: list_ex_iff)
  have seps:
    "interior_separator = ''   '' @ [CHR 0xE2, CHR 0x94, CHR 0x9C]
       @ concat (replicate 53 [CHR 0xE2, CHR 0x94, CHR 0x80]) @ [CHR 0x0A]"
    "final_separator = ''   '' @ [CHR 0xE2, CHR 0x94, CHR 0x94]
       @ concat (replicate 53 [CHR 0xE2, CHR 0x94, CHR 0x80]) @ [CHR 0x0A]"
    by (simp_all only: interior_separator_def final_separator_def box_vertical_right_def
        box_up_right_def box_horizontal_def nl_def)
  show ?thesis
    unfolding basic_blocks_loop_text [OF assms, of 0] seps
    by (intro arg_cong [where f = concat] map_cong refl)
       (simp add: each basic_block_full_text del: of_nat_Suc)
qed

lemma arguments_loop_text:
  "arguments_loop args =
     concat (map (\<lambda>arg. ''     '' @ bullet @ '' ''
                          @ (case arg_name arg of Some name \<Rightarrow> name | None \<Rightarrow> ''unnamed'')
                          @ '' : '' @ arg_type arg @ nl)
                 args)"
  by (induction args) (simp_all add: hasName_def getName_def split: option.splits)

lemma alloca_i32_fragment:
  "inst_text alloca_i32 = ''  %a = alloca i32, align 4''"
  "fst (analyze_instruction sample_layout alloca_i32) =
     ind6 @ glyph_package @ '' Stack Allocation (alloca)'' @ nl
     @ ind9 @ ''Type: i32'' @ nl
     @ ind9 @ ''Size: 4 bytes'' @ nl
     @ ind9 @ ''Alignment: 4 bytes'' @ nl"
  by (simp_all add: analyze_instruction_def alloca_i32_def instruction_def
      stack_allocation_def getAllocationSize_def sample_layout_def show_nat_small)

lemma br_unnamed_fragment:
  "inst_text br_unnamed = ''  br label %0''"
  "fst (analyze_instruction sample_layout br_unnamed) =
     ind6 @ glyph_right_arrow @ ''  Unconditional Branch'' @ nl
     @ ind9 @ ''Target: '' @ nl"
  by (simp_all add: analyze_instruction_def br_unnamed_def instruction_def branch_def
      getName_def)

lemma ret_42_fragment:
  "inst_text ret_42 = ''  ret i32 42''"
  "fst (analyze_instruction sample_layout ret_42) =
     ind6 @ glyph_back @ '' Return Statement'' @ nl
     @ ind9 @ ''Type: i32'' @ nl
     @ ind9 @ ''Value: (unnamed temporary)'' @ nl
     @ ind9 @ ''Constant: 42'' @ nl"
  by (simp_all add: analyze_instruction_def ret_42_def instruction_def
      return_statement_def i32_42_def hasName_def show_42)

lemma f_def_blocks:
  "[0..<2] = [0, Suc 0]"
  "fn_blocks f_def ! 0 = f_entry" "fn_blocks f_def ! Suc 0 = f_exit"
  "length (fn_blocks f_def) = 2"
  "bb_name f_entry = Some ''entry''" "bb_instructions f_entry = [alloca_i32, br_unnamed]"
  "bb_name f_exit = None" "bb_instructions f_exit = [ret_42]"
  by (simp_all add: f_def_def f_entry_def f_exit_def upt_rec)

section \<open>The classifier\<close>

text \<open>
  C1. Every instruction is given exactly one of the eleven kinds: \<open>classify\<close> is a total
  function into the kinds of the cascade, which are eleven and distinct; the instruction
  passes the test of its kind, and every instruction passes that of the fallback
  \<open>Unknown\<close>; the cascade runs the branch of that kind. Classifying produces a kind and
  never an error, and reads the instruction only.
\<close>

theorem classification_total:
  "classify I \<in> set precedence \<and> length precedence = 11 \<and> distinct precedence
   \<and> matches (classify I) I \<and> matches Unknown I
   \<and> branch_body DL I (classify I) = Some (analyze_instruction DL I)"
proof -
  have "classify I \<in> set precedence"
    by (cases "classify I") (simp_all add: precedence_def)
  moreover have "length precedence = 11" "distinct precedence"
    by (simp_all add: precedence_def)
  moreover have "matches (classify I) I"
    by (simp add: classify_def)
  ultimately show ?thesis
    by (simp add: analyze_instruction_branch_body)
qed

text \<open>
  C2. The cascade assigns the first kind, in its fixed order, whose test the instruction
  passes. So when an instruction passes the tests of two kinds, the later of the two is
  never assigned; and an instruction that passes the tests of \<open>Cast\<close> and of
  \<open>GenericOperator\<close>, and of no kind before \<open>Cast\<close>, is a \<open>Cast\<close>.
\<close>

theorem precedence_first_match:
  "map rank precedence = [0..<11]
   \<and> find (\<lambda>k. matches k I) precedence = Some (classify I)
   \<and> (\<forall>k1 k2. rank k1 < rank k2 \<and> matches k1 I \<and> matches k2 I \<longrightarrow> classify I \<noteq> k2)
   \<and> (matches Cast I \<and> matches GenericOperator I \<and> (\<forall>k. rank k < rank Cast \<longrightarrow> \<not> matches k I)
        \<longrightarrow> classify I = Cast \<and> classify I \<noteq> GenericOperator)"
proof -
  have ranks: "map rank precedence = [0..<11]"
    by (simp add: precedence_def upt_rec)
  have first: "find (\<lambda>k. matches k I) precedence = Some (classify I)"
    by (simp add: precedence_def classify_def)
  have earlier: "classify I \<noteq> k2" if "rank k1 < rank k2" "matches k1 I" "matches k2 I" for k1 k2
    using that by (cases k2; cases k1) (simp_all add: classify_def)
  have cast: "classify I = Cast \<and> classify I \<noteq> GenericOperator"
    if "matches Cast I" and none: "\<forall>k. rank k < rank Cast \<longrightarrow> \<not> matches k I"
  proof -
    have "\<not> matches BinaryArithmetic I" "\<not> matches StackAllocation I" "\<not> matches Load I"
      "\<not> matches Store I" "\<not> matches Call I" "\<not> matches Branch I" "\<not> matches Return I"
      "\<not> matches Compare I"
      using none [rule_format, of BinaryArithmetic] none [rule_format, of StackAllocation]
        none [rule_format, of Load] none [rule_format, of Store] none [rule_format, of Call]
        none [rule_format, of Branch] none [rule_format, of Return]
        none [rule_format, of Compare]
      by simp_all
    then show ?thesis
      using that(1) by (simp add: classify_def)
  qed
  show ?thesis
    using ranks first earlier cast by blast
qed

theorem precedence_first_match_witness:
  "matches Cast sext_example \<and> matches GenericOperator sext_example
   \<and> classify sext_example = Cast \<and> classify sext_example \<noteq> GenericOperator"
proof -
  have both: "matches Cast sext_example \<and> matches GenericOperator sext_example"
    by (simp add: sext_example_def instruction_def)
  have none: "\<forall>k. rank k < rank Cast \<longrightarrow> \<not> matches k sext_example"
  proof (intro allI impI)
    fix k assume "rank k < rank Cast"
    then show "\<not> matches k sext_example"
      by (cases k) (simp_all add: sext_example_def instruction_def)
  qed
  show ?thesis
    using precedence_first_match [of sext_example] both none by blast
qed

section \<open>Instruction fragments\<close>

text \<open>
  C3, as the code has it. A return of a value writes the header and the type of the
  value, and then: the name, when the value has one; otherwise the line
  \<open>Value: (unnamed temporary)\<close>, followed by the text of the source instruction when the
  value is the result of an instruction, by the sign-extended constant when it is an
  integer constant, and by nothing when it is neither.
\<close>

theorem return_value_payload:
  "classify I = Return \<and> dyn_cast_ReturnInst I = Some ret \<and> getReturnValue ret = Some retVal
   \<longrightarrow>
   analyze_instruction DL I =
     (ind6 @ glyph_back @ '' Return Statement'' @ nl
      @ ind9 @ ''Type: '' @ value_type retVal @ nl
      @ (case value_name retVal of
           Some name \<Rightarrow> ind9 @ ''Value: '' @ name @ nl
         | None \<Rightarrow>
             ind9 @ ''Value: (unnamed temporary)'' @ nl
             @ (case value_class retVal of
                  IsInstruction \<Rightarrow> ind9 @ ''Source: '' @ value_text retVal @ nl
                | IsConstantInt c \<Rightarrow> ind9 @ ''Constant: '' @ show_int (sint c) @ nl
                | IsOtherValue \<Rightarrow> [])),
      Inr ())"
proof
  assume ret: "classify I = Return \<and> dyn_cast_ReturnInst I = Some ret
    \<and> getReturnValue ret = Some retVal"
  then have "branch_body DL I Return = Some (analyze_instruction DL I)"
    using analyze_instruction_branch_body [of DL I] by simp
  then have "analyze_instruction DL I = return_statement ret"
    using ret by simp
  then show "analyze_instruction DL I =
     (ind6 @ glyph_back @ '' Return Statement'' @ nl
      @ ind9 @ ''Type: '' @ value_type retVal @ nl
      @ (case value_name retVal of
           Some name \<Rightarrow> ind9 @ ''Value: '' @ name @ nl
         | None \<Rightarrow>
             ind9 @ ''Value: (unnamed temporary)'' @ nl
             @ (case value_class retVal of
                  IsInstruction \<Rightarrow> ind9 @ ''Source: '' @ value_text retVal @ nl
                | IsConstantInt c \<Rightarrow> ind9 @ ''Constant: '' @ show_int (sint c) @ nl
                | IsOtherValue \<Rightarrow> [])),
      Inr ())"
    using ret
    by (simp add: return_statement_def hasName_def getName_def next_stmt_unfold
        split: option.splits ValueClass.splits)
qed

text \<open>At \<open>ret i32 42\<close> the fragment has the line \<open>Value: (unnamed temporary)\<close> and then
  the constant: the constant does not take the place of that line.\<close>

theorem return_constant_counterexample:
  "analyze_instruction sample_layout ret_42 =
     (ind6 @ glyph_back @ '' Return Statement'' @ nl
      @ ind9 @ ''Type: i32'' @ nl
      @ ind9 @ ''Value: (unnamed temporary)'' @ nl
      @ ind9 @ ''Constant: 42'' @ nl,
      Inr ())"
  by (simp add: analyze_instruction_def ret_42_def instruction_def return_statement_def
      i32_42_def hasName_def show_42)

theorem return_value_payload_witness:
  "classify ret_42 = Return
   \<and> dyn_cast_ReturnInst ret_42 = Some \<lparr>getReturnValue = Some i32_42\<rparr>
   \<and> analyze_instruction sample_layout ret_42 =
     (ind6 @ glyph_back @ '' Return Statement'' @ nl
      @ ind9 @ ''Type: i32'' @ nl
      @ ind9 @ ''Value: (unnamed temporary)'' @ nl
      @ ind9 @ ''Constant: 42'' @ nl,
      Inr ())"
proof -
  have shape: "classify ret_42 = Return"
    "dyn_cast_ReturnInst ret_42 = Some \<lparr>getReturnValue = Some i32_42\<rparr>"
    by (simp_all add: ret_42_def instruction_def classify_def)
  show ?thesis
    using shape
      return_value_payload [of ret_42 "\<lparr>getReturnValue = Some i32_42\<rparr>" i32_42 sample_layout]
    by (simp add: i32_42_def show_42)
qed

text \<open>
  C9, as the code has it. A comparison writes its header and its two operands. Between
  them, only when it is an integer comparison, come the category
  \<open>Integer Comparison\<close> and the predicate: \<open>Equal (==)\<close> for \<open>ICMP_EQ\<close>,
  \<open>Not Equal (!=)\<close> for \<open>ICMP_NE\<close>, \<open>Signed Greater Than (>)\<close> for \<open>ICMP_SGT\<close>,
  \<open>Signed Greater or Equal (>=)\<close> for \<open>ICMP_SGE\<close>, \<open>Signed Less Than (<)\<close> for
  \<open>ICMP_SLT\<close>, \<open>Signed Less or Equal (<=)\<close> for \<open>ICMP_SLE\<close>, and \<open>Other\<close> for every
  other predicate. A comparison that is not an integer comparison has neither category nor
  predicate.
\<close>

theorem comparison_fields:
  "classify I = Compare \<and> dyn_cast_CmpInst I = Some cmp \<longrightarrow>
   analyze_instruction DL I =
     (ind6 @ glyph_scales @ ''  Comparison Instruction'' @ nl
      @ (if is_ICmpInst cmp
         then ind9 @ ''Type: Integer Comparison'' @ nl
              @ ind9 @ ''Predicate: ''
              @ (if getPredicate cmp = ICMP_EQ then ''Equal (==)''
                 else if getPredicate cmp = ICMP_NE then ''Not Equal (!=)''
                 else if getPredicate cmp = ICMP_SGT then ''Signed Greater Than (>)''
                 else if getPredicate cmp = ICMP_SGE then ''Signed Greater or Equal (>=)''
                 else if getPredicate cmp = ICMP_SLT then ''Signed Less Than (<)''
                 else if getPredicate cmp = ICMP_SLE then ''Signed Less or Equal (<=)''
                 else ''Other'')
              @ nl
         else [])
      @ ind9 @ ''Left Operand: '' @ value_text (cmp_operand0 cmp) @ nl
      @ ind9 @ ''Right Operand: '' @ value_text (cmp_operand1 cmp) @ nl,
      Inr ())"
proof
  assume cmp: "classify I = Compare \<and> dyn_cast_CmpInst I = Some cmp"
  then have "branch_body DL I Compare = Some (analyze_instruction DL I)"
    using analyze_instruction_branch_body [of DL I] by simp
  then have taken: "analyze_instruction DL I = comparison cmp"
    using cmp by simp
  have name: "predicate_name p =
      (if p = ICMP_EQ then ''Equal (==)''
       else if p = ICMP_NE then ''Not Equal (!=)''
       else if p = ICMP_SGT then ''Signed Greater Than (>)''
       else if p = ICMP_SGE then ''Signed Greater or Equal (>=)''
       else if p = ICMP_SLT then ''Signed Less Than (<)''
       else if p = ICMP_SLE then ''Signed Less or Equal (<=)''
       else ''Other'')" for p
    by (cases p) simp_all
  show "analyze_instruction DL I =
     (ind6 @ glyph_scales @ ''  Comparison Instruction'' @ nl
      @ (if is_ICmpInst cmp
         then ind9 @ ''Type: Integer Comparison'' @ nl
              @ ind9 @ ''Predicate: ''
              @ (if getPredicate cmp = ICMP_EQ then ''Equal (==)''
                 else if getPredicate cmp = ICMP_NE then ''Not Equal (!=)''
                 else if getPredicate cmp = ICMP_SGT then ''Signed Greater Than (>)''
                 else if getPredicate cmp = ICMP_SGE then ''Signed Greater or Equal (>=)''
                 else if getPredicate cmp = ICMP_SLT then ''Signed Less Than (<)''
                 else if getPredicate cmp = ICMP_SLE then ''Signed Less or Equal (<=)''
                 else ''Other'')
              @ nl
         else [])
      @ ind9 @ ''Left Operand: '' @ value_text (cmp_operand0 cmp) @ nl
      @ ind9 @ ''Right Operand: '' @ value_text (cmp_operand1 cmp) @ nl,
      Inr ())"
    unfolding taken name [of "getPredicate cmp", symmetric]
    by (simp add: comparison_def next_stmt_unfold)
qed

text \<open>At \<open>%c = fcmp olt float %a, %b\<close> the fragment is the header and the two operands.\<close>

theorem float_comparison_counterexample:
  "classify fcmp_example = Compare
   \<and> analyze_instruction sample_layout fcmp_example =
     (ind6 @ glyph_scales @ ''  Comparison Instruction'' @ nl
      @ ind9 @ ''Left Operand: float %a'' @ nl
      @ ind9 @ ''Right Operand: float %b'' @ nl,
      Inr ())"
  by (simp add: analyze_instruction_def classify_def fcmp_example_def instruction_def
      comparison_def float_a_def float_b_def)

theorem comparison_fields_witness:
  "classify icmp_sgt_example = Compare
   \<and> analyze_instruction sample_layout icmp_sgt_example =
     (ind6 @ glyph_scales @ ''  Comparison Instruction'' @ nl
      @ ind9 @ ''Type: Integer Comparison'' @ nl
      @ ind9 @ ''Predicate: Signed Greater Than (>)'' @ nl
      @ ind9 @ ''Left Operand: i32 %x'' @ nl
      @ ind9 @ ''Right Operand: i32 0'' @ nl,
      Inr ())
   \<and> classify icmp_ult_example = Compare
   \<and> analyze_instruction sample_layout icmp_ult_example =
     (ind6 @ glyph_scales @ ''  Comparison Instruction'' @ nl
      @ ind9 @ ''Type: Integer Comparison'' @ nl
      @ ind9 @ ''Predicate: Other'' @ nl
      @ ind9 @ ''Left Operand: i32 %x'' @ nl
      @ ind9 @ ''Right Operand: i32 0'' @ nl,
      Inr ())
   \<and> classify fcmp_example = Compare
   \<and> analyze_instruction sample_layout fcmp_example =
     (ind6 @ glyph_scales @ ''  Comparison Instruction'' @ nl
      @ ind9 @ ''Left Operand: float %a'' @ nl
      @ ind9 @ ''Right Operand: float %b'' @ nl,
      Inr ())"
proof -
  have sgt: "classify icmp_sgt_example = Compare"
    "dyn_cast_CmpInst icmp_sgt_example =
       Some \<lparr>is_ICmpInst = True, getPredicate = ICMP_SGT, cmp_operand0 = i32_x,
             cmp_operand1 = i32_0\<rparr>"
    by (simp_all add: icmp_sgt_example_def instruction_def classify_def)
  have ult: "classify icmp_ult_example = Compare"
    "dyn_cast_CmpInst icmp_ult_example =
       Some \<lparr>is_ICmpInst = True, getPredicate = ICMP_ULT, cmp_operand0 = i32_x,
             cmp_operand1 = i32_0\<rparr>"
    by (simp_all add: icmp_ult_example_def instruction_def classify_def)
  have fcmp: "classify fcmp_example = Compare"
    "dyn_cast_CmpInst fcmp_example =
       Some \<lparr>is_ICmpInst = False, getPredicate = FCMP_OLT, cmp_operand0 = float_a,
             cmp_operand1 = float_b\<rparr>"
    by (simp_all add: fcmp_example_def instruction_def classify_def)
  show ?thesis
    using sgt ult fcmp
      comparison_fields [of icmp_sgt_example
        "\<lparr>is_ICmpInst = True, getPredicate = ICMP_SGT, cmp_operand0 = i32_x,
          cmp_operand1 = i32_0\<rparr>" sample_layout]
      comparison_fields [of icmp_ult_example
        "\<lparr>is_ICmpInst = True, getPredicate = ICMP_ULT, cmp_operand0 = i32_x,
          cmp_operand1 = i32_0\<rparr>" sample_layout]
      comparison_fields [of fcmp_example
        "\<lparr>is_ICmpInst = False, getPredicate = FCMP_OLT, cmp_operand0 = float_a,
          cmp_operand1 = float_b\<rparr>" sample_layout]
    by (simp add: i32_x_def i32_0_def float_a_def float_b_def)
qed

text \<open>
  C4, at a branch to a block without a name: the target is written as the empty string,
  where the header of the same block (line 57) writes \<open>unnamed\<close>.
\<close>

theorem branch_target_without_name:
  "analyze_instruction sample_layout br_unnamed =
     (ind6 @ glyph_right_arrow @ ''  Unconditional Branch'' @ nl
      @ ind9 @ ''Target: '' @ nl,
      Inr ())
   \<and> fst (basic_block sample_layout 2 f_exit) =
       ''   '' @ box_down_right @ box_horizontal @ '' Basic Block #2: unnamed'' @ nl
       @ bar @ ''  Instructions: 1'' @ nl
       @ bar @ nl
       @ fst (instructions_loop sample_layout 0 [ret_42])"
proof -
  have two: "show_nat 2 = ''2''" "show_nat (Suc 0) = ''1''"
    by (simp_all add: show_nat.simps)
  have "analyze_instruction sample_layout br_unnamed =
     (ind6 @ glyph_right_arrow @ ''  Unconditional Branch'' @ nl
      @ ind9 @ ''Target: '' @ nl,
      Inr ())"
    by (simp add: analyze_instruction_def br_unnamed_def instruction_def branch_def
        getName_def)
  moreover have "fst (basic_block sample_layout 2 f_exit) =
       ''   '' @ box_down_right @ box_horizontal @ '' Basic Block #2: unnamed'' @ nl
       @ bar @ ''  Instructions: 1'' @ nl
       @ bar @ nl
       @ fst (instructions_loop sample_layout 0 [ret_42])"
    by (simp add: basic_block_def f_exit_def hasName_def two del: instructions_loop.simps)
  ultimately show ?thesis
    by simp
qed

section \<open>Functions and blocks\<close>

text \<open>
  C7. In a function with \<open>N\<close> blocks whose analysis completes, the loop over the blocks
  writes, for \<open>k\<close> from 1 to \<open>N\<close> in order, the header of block \<open>k\<close>, its instructions
  and then, after the last instruction, a closing separator: three blanks, a corner glyph
  and 53 horizontal strokes, where the corner is the T-shaped glyph (UTF-8 E2 94 9C) when
  \<open>k < N\<close> and the L-shaped glyph (UTF-8 E2 94 94) when \<open>k = N\<close>. A single block gets
  the second. These are the two separators of the source, and they differ.
\<close>

theorem last_block_marker:
  "(\<not> function_fails DL F \<longrightarrow>
     basic_blocks_loop DL 0 (fn_blocks F) =
       (concat (map (\<lambda>k.
           ''   '' @ box_down_right @ box_horizontal @ '' Basic Block #''
             @ show_nat (unat (of_nat (Suc k) :: 32 word)) @ '': ''
             @ (case bb_name (fn_blocks F ! k) of Some name \<Rightarrow> name | None \<Rightarrow> ''unnamed'')
             @ nl
           @ bar @ ''  Instructions: ''
             @ show_nat (length (bb_instructions (fn_blocks F ! k))) @ nl
           @ bar @ nl
           @ concat (map (\<lambda>j. bar @ ''  ['' @ show_nat (unat (of_nat (Suc j) :: 32 word))
                                @ ''] '' @ inst_text (bb_instructions (fn_blocks F ! k) ! j)
                                @ nl
                              @ fst (analyze_instruction DL
                                       (bb_instructions (fn_blocks F ! k) ! j))
                              @ bar @ nl)
                         [0..<length (bb_instructions (fn_blocks F ! k))])
           @ (if Suc k < length (fn_blocks F)
              then ''   '' @ [CHR 0xE2, CHR 0x94, CHR 0x9C]
                   @ concat (replicate 53 [CHR 0xE2, CHR 0x94, CHR 0x80]) @ [CHR 0x0A]
              else ''   '' @ [CHR 0xE2, CHR 0x94, CHR 0x94]
                   @ concat (replicate 53 [CHR 0xE2, CHR 0x94, CHR 0x80]) @ [CHR 0x0A]))
         [0..<length (fn_blocks F)]),
        Inr ())
     \<and> (\<forall>BB. fn_blocks F = [BB] \<longrightarrow>
           basic_blocks_loop DL 0 (fn_blocks F) =
             (fst (basic_block DL 1 BB)
              @ ''   '' @ [CHR 0xE2, CHR 0x94, CHR 0x94]
              @ concat (replicate 53 [CHR 0xE2, CHR 0x94, CHR 0x80]) @ [CHR 0x0A],
              Inr ())))
   \<and> interior_separator =
       ''   '' @ [CHR 0xE2, CHR 0x94, CHR 0x9C]
       @ concat (replicate 53 [CHR 0xE2, CHR 0x94, CHR 0x80]) @ [CHR 0x0A]
   \<and> final_separator =
       ''   '' @ [CHR 0xE2, CHR 0x94, CHR 0x94]
       @ concat (replicate 53 [CHR 0xE2, CHR 0x94, CHR 0x80]) @ [CHR 0x0A]
   \<and> interior_separator \<noteq> final_separator"
  (is "(?completes \<longrightarrow> ?whole \<and> ?single) \<and> ?interior \<and> ?final \<and> ?differ")
proof -
  have interior: ?interior and final: ?final
    by (simp_all only: interior_separator_def final_separator_def box_vertical_right_def
        box_up_right_def box_horizontal_def nl_def)
  have differ: ?differ
    by (simp add: interior_separator_def final_separator_def box_vertical_right_def
        box_up_right_def)
  have blocks: "?whole \<and> ?single" if ?completes
  proof -
    have ok: "\<not> list_ex (block_fails DL) (fn_blocks F)"
      using that by (simp add: function_fails_def)
    have outcome: "snd (basic_blocks_loop DL 0 (fn_blocks F)) = Inr ()"
      using ok by (simp add: basic_blocks_loop_outcome)
    have whole: ?whole
      using basic_blocks_loop_full_text [OF ok] outcome
      by (simp only: prod_eq_iff fst_conv snd_conv simp_thms)
    have single: ?single
    proof (intro allI impI)
      fix BB
      assume one: "fn_blocks F = [BB]"
      then have "\<not> block_fails DL BB"
        using ok by simp
      then show "basic_blocks_loop DL 0 (fn_blocks F) =
          (fst (basic_block DL 1 BB)
           @ ''   '' @ [CHR 0xE2, CHR 0x94, CHR 0x94]
           @ concat (replicate 53 [CHR 0xE2, CHR 0x94, CHR 0x80]) @ [CHR 0x0A],
           Inr ())"
        unfolding final [symmetric]
        by (simp add: one next_stmt_unfold basic_block_outcome)
    qed
    show ?thesis
      using whole single by blast
  qed
  show ?thesis
    using interior final differ blocks by blast
qed

theorem last_block_marker_witness:
  "\<not> function_fails sample_layout f_def
   \<and> basic_blocks_loop sample_layout 0 (fn_blocks f_def) =
       (''   '' @ box_down_right @ box_horizontal @ '' Basic Block #1: entry'' @ nl
        @ bar @ ''  Instructions: 2'' @ nl
        @ bar @ nl
        @ bar @ ''  [1]   %a = alloca i32, align 4'' @ nl
        @ ind6 @ glyph_package @ '' Stack Allocation (alloca)'' @ nl
        @ ind9 @ ''Type: i32'' @ nl
        @ ind9 @ ''Size: 4 bytes'' @ nl
        @ ind9 @ ''Alignment: 4 bytes'' @ nl
        @ bar @ nl
        @ bar @ ''  [2]   br label %0'' @ nl
        @ ind6 @ glyph_right_arrow @ ''  Unconditional Branch'' @ nl
        @ ind9 @ ''Target: '' @ nl
        @ bar @ nl
        @ ''   '' @ [CHR 0xE2, CHR 0x94, CHR 0x9C]
          @ concat (replicate 53 [CHR 0xE2, CHR 0x94, CHR 0x80]) @ [CHR 0x0A]
        @ ''   '' @ box_down_right @ box_horizontal @ '' Basic Block #2: unnamed'' @ nl
        @ bar @ ''  Instructions: 1'' @ nl
        @ bar @ nl
        @ bar @ ''  [1]   ret i32 42'' @ nl
        @ ind6 @ glyph_back @ '' Return Statement'' @ nl
        @ ind9 @ ''Type: i32'' @ nl
        @ ind9 @ ''Value: (unnamed temporary)'' @ nl
        @ ind9 @ ''Constant: 42'' @ nl
        @ bar @ nl
        @ ''   '' @ [CHR 0xE2, CHR 0x94, CHR 0x94]
          @ concat (replicate 53 [CHR 0xE2, CHR 0x94, CHR 0x80]) @ [CHR 0x0A],
        Inr ())"
proof -
  show ?thesis
    using f_def_completes last_block_marker [of sample_layout f_def]
    by (simp add: f_def_blocks alloca_i32_fragment br_unnamed_fragment ret_42_fragment
        show_nat_small del: basic_blocks_loop.simps)
qed

text \<open>
  C8. A function with no block is rendered as a declaration: its name, return type,
  parameter count and each parameter, and nothing about blocks or instructions. A function
  with at least one block is rendered as a definition: the header, which also has the
  number of blocks, then every block in order, each with its 1-based index, its name or
  \<open>unnamed\<close>, its instruction count, each of its instructions in order with its index
  and fragment, and its closing separator, then the footer (for a function whose analysis
  completes).
\<close>

theorem declaration_definition_split:
  "(fn_blocks F = [] \<longrightarrow>
      analyze_function DL F =
        (glyph_clipboard @ '' External Function Declaration: '' @ getName (fn_name F)
           @ ''()'' @ nl
         @ ''   '' @ arrow_tip @ '' Return Type: '' @ getReturnType F @ nl
         @ ''   '' @ arrow_tip @ '' Parameters: '' @ show_nat (length (fn_args F)) @ nl
         @ concat (map (\<lambda>arg. ''     '' @ bullet @ '' ''
                              @ (case arg_name arg of Some name \<Rightarrow> name
                                 | None \<Rightarrow> ''unnamed'')
                              @ '' : '' @ arg_type arg @ nl)
                       (fn_args F))
         @ nl,
         Inr ()))
   \<and> (fn_blocks F \<noteq> [] \<and> \<not> function_fails DL F \<longrightarrow>
      analyze_function DL F =
        (glyph_wrench @ '' Function Definition: '' @ getName (fn_name F) @ ''()'' @ nl
         @ ''   '' @ arrow_tip @ '' Return Type: '' @ getReturnType F @ nl
         @ ''   '' @ arrow_tip @ '' Parameters: '' @ show_nat (length (fn_args F)) @ nl
         @ ''   '' @ arrow_tip @ '' Basic Blocks: '' @ show_nat (length (fn_blocks F)) @ nl
         @ (if fn_args F = [] then []
            else ''   '' @ arrow_tip @ '' Function Arguments:'' @ nl
                 @ concat (map (\<lambda>arg. ''     '' @ bullet @ '' ''
                                      @ (case arg_name arg of Some name \<Rightarrow> name
                                         | None \<Rightarrow> ''unnamed'')
                                      @ '' : '' @ arg_type arg @ nl)
                               (fn_args F)))
         @ nl
         @ concat (map (\<lambda>k.
             ''   '' @ box_down_right @ box_horizontal @ '' Basic Block #''
               @ show_nat (unat (of_nat (Suc k) :: 32 word)) @ '': ''
               @ (case bb_name (fn_blocks F ! k) of Some name \<Rightarrow> name | None \<Rightarrow> ''unnamed'')
               @ nl
             @ bar @ ''  Instructions: ''
               @ show_nat (length (bb_instructions (fn_blocks F ! k))) @ nl
             @ bar @ nl
             @ concat (map (\<lambda>j. bar @ ''  ['' @ show_nat (unat (of_nat (Suc j) :: 32 word))
                                  @ ''] '' @ inst_text (bb_instructions (fn_blocks F ! k) ! j)
                                  @ nl
                                @ fst (analyze_instruction DL
                                         (bb_instructions (fn_blocks F ! k) ! j))
                                @ bar @ nl)
                           [0..<length (bb_instructions (fn_blocks F ! k))])
             @ (if Suc k < length (fn_blocks F)
                then ''   '' @ [CHR 0xE2, CHR 0x94, CHR 0x9C]
                     @ concat (replicate 53 [CHR 0xE2, CHR 0x94, CHR 0x80]) @ [CHR 0x0A]
                else ''   '' @ [CHR 0xE2, CHR 0x94, CHR 0x94]
                     @ concat (replicate 53 [CHR 0xE2, CHR 0x94, CHR 0x80]) @ [CHR 0x0A]))
           [0..<length (fn_blocks F)])
         @ nl @ concat (replicate 78 box_dbl_horizontal) @ nl @ nl,
         Inr ()))"
  (is "(?no_blocks \<longrightarrow> ?decl_text) \<and> (?has_blocks \<longrightarrow> ?def_text)")
proof -
  have decl_part: ?decl_text if ?no_blocks
    using that unfolding arguments_loop_text [symmetric]
    by (cases "fn_args F")
       (simp_all add: analyze_function_def isDeclaration_def function_declaration_def)
  have def_part: ?def_text if def: ?has_blocks
  proof -
    have blocks: "\<not> list_ex (block_fails DL) (fn_blocks F)"
      using def by (simp add: function_fails_def)
    have header: "definition_header F =
        (glyph_wrench @ '' Function Definition: '' @ getName (fn_name F) @ ''()'' @ nl
         @ ''   '' @ arrow_tip @ '' Return Type: '' @ getReturnType F @ nl
         @ ''   '' @ arrow_tip @ '' Parameters: '' @ show_nat (length (fn_args F)) @ nl
         @ ''   '' @ arrow_tip @ '' Basic Blocks: '' @ show_nat (length (fn_blocks F)) @ nl
         @ (if fn_args F = [] then []
            else ''   '' @ arrow_tip @ '' Function Arguments:'' @ nl
                 @ arguments_loop (fn_args F))
         @ nl, Inr ())"
      by (simp add: definition_header_def next_stmt_unfold)
    have loop: "snd (basic_blocks_loop DL 0 (fn_blocks F)) = Inr ()"
      using blocks by (simp add: basic_blocks_loop_outcome)
    have "analyze_function DL F =
        (fst (definition_header F) @ fst (basic_blocks_loop DL 0 (fn_blocks F))
         @ function_footer, Inr ())"
      using def loop
      by (simp add: analyze_function_def isDeclaration_def next_stmt_unfold header)
    then show ?def_text
      unfolding basic_blocks_loop_full_text [OF blocks] header arguments_loop_text
        function_footer_def
      by (simp only: fst_conv append_assoc)
  qed
  show ?thesis
    using decl_part def_part by blast
qed

theorem declaration_definition_split_witness:
  "fn_blocks puts_decl = []
   \<and> analyze_function sample_layout puts_decl =
       (glyph_clipboard @ '' External Function Declaration: puts()'' @ nl
        @ ''   '' @ arrow_tip @ '' Return Type: i32'' @ nl
        @ ''   '' @ arrow_tip @ '' Parameters: 1'' @ nl
        @ ''     '' @ bullet @ '' unnamed : ptr'' @ nl
        @ nl,
        Inr ())
   \<and> fn_blocks f_def \<noteq> [] \<and> \<not> function_fails sample_layout f_def
   \<and> analyze_function sample_layout f_def =
       (glyph_wrench @ '' Function Definition: f()'' @ nl
        @ ''   '' @ arrow_tip @ '' Return Type: i32'' @ nl
        @ ''   '' @ arrow_tip @ '' Parameters: 1'' @ nl
        @ ''   '' @ arrow_tip @ '' Basic Blocks: 2'' @ nl
        @ ''   '' @ arrow_tip @ '' Function Arguments:'' @ nl
        @ ''     '' @ bullet @ '' x : i32'' @ nl
        @ nl
        @ ''   '' @ box_down_right @ box_horizontal @ '' Basic Block #1: entry'' @ nl
        @ bar @ ''  Instructions: 2'' @ nl
        @ bar @ nl
        @ bar @ ''  [1]   %a = alloca i32, align 4'' @ nl
        @ ind6 @ glyph_package @ '' Stack Allocation (alloca)'' @ nl
        @ ind9 @ ''Type: i32'' @ nl
        @ ind9 @ ''Size: 4 bytes'' @ nl
        @ ind9 @ ''Alignment: 4 bytes'' @ nl
        @ bar @ nl
        @ bar @ ''  [2]   br label %0'' @ nl
        @ ind6 @ glyph_right_arrow @ ''  Unconditional Branch'' @ nl
        @ ind9 @ ''Target: '' @ nl
        @ bar @ nl
        @ ''   '' @ [CHR 0xE2, CHR 0x94, CHR 0x9C]
          @ concat (replicate 53 [CHR 0xE2, CHR 0x94, CHR 0x80]) @ [CHR 0x0A]
        @ ''   '' @ box_down_right @ box_horizontal @ '' Basic Block #2: unnamed'' @ nl
        @ bar @ ''  Instructions: 1'' @ nl
        @ bar @ nl
        @ bar @ ''  [1]   ret i32 42'' @ nl
        @ ind6 @ glyph_back @ '' Return Statement'' @ nl
        @ ind9 @ ''Type: i32'' @ nl
        @ ind9 @ ''Value: (unnamed temporary)'' @ nl
        @ ind9 @ ''Constant: 42'' @ nl
        @ bar @ nl
        @ ''   '' @ [CHR 0xE2, CHR 0x94, CHR 0x94]
          @ concat (replicate 53 [CHR 0xE2, CHR 0x94, CHR 0x80]) @ [CHR 0x0A]
        @ nl @ concat (replicate 78 box_dbl_horizontal) @ nl @ nl,
        Inr ())"
proof -
  have decl: "fn_blocks puts_decl = []"
    by (simp add: puts_decl_def)
  have def: "fn_blocks f_def \<noteq> []"
    by (simp add: f_def_def)
  have puts: "getName (fn_name puts_decl) = ''puts''" "getReturnType puts_decl = ''i32''"
    "fn_args puts_decl = [\<lparr>arg_name = None, arg_type = ''ptr''\<rparr>]"
    by (simp_all add: puts_decl_def getName_def)
  have f: "getName (fn_name f_def) = ''f''" "getReturnType f_def = ''i32''"
    "fn_args f_def = [\<lparr>arg_name = Some ''x'', arg_type = ''i32''\<rparr>]"
    by (simp_all add: f_def_def getName_def)
  have "analyze_function sample_layout puts_decl =
       (glyph_clipboard @ '' External Function Declaration: puts()'' @ nl
        @ ''   '' @ arrow_tip @ '' Return Type: i32'' @ nl
        @ ''   '' @ arrow_tip @ '' Parameters: 1'' @ nl
        @ ''     '' @ bullet @ '' unnamed : ptr'' @ nl
        @ nl,
        Inr ())"
    using decl declaration_definition_split [of puts_decl sample_layout]
    by (simp add: puts show_nat_small)
  moreover have "analyze_function sample_layout f_def = (
        glyph_wrench @ '' Function Definition: f()'' @ nl
        @ ''   '' @ arrow_tip @ '' Return Type: i32'' @ nl
        @ ''   '' @ arrow_tip @ '' Parameters: 1'' @ nl
        @ ''   '' @ arrow_tip @ '' Basic Blocks: 2'' @ nl
        @ ''   '' @ arrow_tip @ '' Function Arguments:'' @ nl
        @ ''     '' @ bullet @ '' x : i32'' @ nl
        @ nl
        @ ''   '' @ box_down_right @ box_horizontal @ '' Basic Block #1: entry'' @ nl
        @ bar @ ''  Instructions: 2'' @ nl
        @ bar @ nl
        @ bar @ ''  [1]   %a = alloca i32, align 4'' @ nl
        @ ind6 @ glyph_package @ '' Stack Allocation (alloca)'' @ nl
        @ ind9 @ ''Type: i32'' @ nl
        @ ind9 @ ''Size: 4 bytes'' @ nl
        @ ind9 @ ''Alignment: 4 bytes'' @ nl
        @ bar @ nl
        @ bar @ ''  [2]   br label %0'' @ nl
        @ ind6 @ glyph_right_arrow @ ''  Unconditional Branch'' @ nl
        @ ind9 @ ''Target: '' @ nl
        @ bar @ nl
        @ ''   '' @ [CHR 0xE2, CHR 0x94, CHR 0x9C]
          @ concat (replicate 53 [CHR 0xE2, CHR 0x94, CHR 0x80]) @ [CHR 0x0A]
        @ ''   '' @ box_down_right @ box_horizontal @ '' Basic Block #2: unnamed'' @ nl
        @ bar @ ''  Instructions: 1'' @ nl
        @ bar @ nl
        @ bar @ ''  [1]   ret i32 42'' @ nl
        @ ind6 @ glyph_back @ '' Return Statement'' @ nl
        @ ind9 @ ''Type: i32'' @ nl
        @ ind9 @ ''Value: (unnamed temporary)'' @ nl
        @ ind9 @ ''Constant: 42'' @ nl
        @ bar @ nl
        @ ''   '' @ [CHR 0xE2, CHR 0x94, CHR 0x94]
          @ concat (replicate 53 [CHR 0xE2, CHR 0x94, CHR 0x80]) @ [CHR 0x0A]
        @ nl @ concat (replicate 78 box_dbl_horizontal) @ nl @ nl,
        Inr ())"
    using def f_def_completes declaration_definition_split [of f_def sample_layout]
    by (simp add: f f_def_blocks alloca_i32_fragment br_unnamed_fragment ret_42_fragment
        show_nat_small)
  ultimately show ?thesis
    using decl def f_def_completes by simp
qed

section \<open>The run\<close>

text \<open>
  C5. The report fails exactly when the traversal meets a stack allocation whose allocated
  type has no size under the data layout; otherwise it returns. At the first such
  instruction the run ends: the stream holds the report up to the label \<open>Size:\<close> of that
  instruction and nothing of the instructions, blocks and functions after it, nor the
  completion banner, and no value is returned.
\<close>

theorem fatal_stack_allocation:
  "((snd (report M) = Inl Fatal) = module_fails M)
   \<and> ((\<exists>pa. snd (report M) = Inr pa) = (\<not> module_fails M))
   \<and> (module_functions M = Fs1 @ F # Fs2 \<and> fn_blocks F = Bs1 @ B # Bs2
       \<and> bb_instructions B = Is1 @ I # Is2
       \<and> \<not> list_ex (function_fails (getDataLayout M)) Fs1
       \<and> \<not> list_ex (block_fails (getDataLayout M)) Bs1
       \<and> \<not> list_ex (unsized_alloca (getDataLayout M)) Is1
       \<and> classify I = StackAllocation \<and> dyn_cast_AllocaInst I = Some alloca
       \<and> getDataLayout M (getAllocatedType alloca) = None
       \<longrightarrow>
       report M =
         (opening_banner M
          @ concat (map (\<lambda>G. fst (analyze_function (getDataLayout M) G)) Fs1)
          @ fst (definition_header F)
          @ concat (map (\<lambda>k. fst (basic_block (getDataLayout M) (of_nat (Suc k)) (Bs1 ! k))
                            @ interior_separator)
                       [0..<length Bs1])
          @ ''   '' @ box_down_right @ box_horizontal @ '' Basic Block #''
            @ show_nat (unat (of_nat (Suc (length Bs1)) :: 32 word)) @ '': ''
            @ (case bb_name B of Some name \<Rightarrow> name | None \<Rightarrow> ''unnamed'') @ nl
          @ bar @ ''  Instructions: '' @ show_nat (length (bb_instructions B)) @ nl
          @ bar @ nl
          @ fst (instructions_loop (getDataLayout M) 0 Is1)
          @ bar @ ''  ['' @ show_nat (unat (of_nat (Suc (length Is1)) :: 32 word)) @ ''] ''
            @ inst_text I @ nl
          @ ind6 @ glyph_package @ '' Stack Allocation (alloca)'' @ nl
          @ ind9 @ ''Type: '' @ getAllocatedType alloca @ nl
          @ ind9 @ ''Size: '',
          Inl Fatal))"
  (is "?fails \<and> ?returns \<and> (?first \<longrightarrow> ?cut)")
proof -
  have fails: ?fails
    by (simp add: report_outcome)
  have returns: ?returns
    by (simp add: report_outcome)
  have cut: ?cut if first: ?first
  proof -
    let ?DL = "getDataLayout M"
    have inst: "unsized_alloca ?DL I"
      using first by (simp add: unsized_alloca_def)
    have "branch_body ?DL I StackAllocation = Some (analyze_instruction ?DL I)"
      using first analyze_instruction_branch_body [of ?DL I] by simp
    then have "analyze_instruction ?DL I = stack_allocation ?DL alloca"
      using first by simp
    then have inst_text: "fst (analyze_instruction ?DL I) =
        ind6 @ glyph_package @ '' Stack Allocation (alloca)'' @ nl
        @ ind9 @ ''Type: '' @ getAllocatedType alloca @ nl
        @ ind9 @ ''Size: ''"
      using first by (simp add: stack_allocation_unsized)
    have insts: "fst (instructions_loop ?DL 0 (bb_instructions B)) =
        fst (instructions_loop ?DL 0 Is1)
        @ bar @ ''  ['' @ show_nat (unat (of_nat (Suc (length Is1)) :: 32 word)) @ ''] ''
          @ inst_text I @ nl
        @ fst (analyze_instruction ?DL I)"
      using first instructions_loop_failing [of ?DL Is1 I 0 Is2] inst by simp
    have block: "block_fails ?DL B"
      using first inst by (simp add: block_fails_def)
    have blocks: "fst (basic_blocks_loop ?DL 0 (fn_blocks F)) =
        concat (map (\<lambda>k. fst (basic_block ?DL (of_nat (Suc k)) (Bs1 ! k))
                          @ interior_separator)
                     [0..<length Bs1])
        @ fst (basic_block ?DL (of_nat (Suc (length Bs1))) B)"
      using first basic_blocks_loop_failing [of ?DL Bs1 B 0 Bs2] block by simp
    have func: "function_fails ?DL F"
      using first block by (simp add: function_fails_def)
    have funcs: "fst (functions_loop ?DL (module_functions M)) =
        concat (map (\<lambda>G. fst (analyze_function ?DL G)) Fs1) @ fst (analyze_function ?DL F)"
      using first functions_loop_failing [of ?DL Fs1 F Fs2] func by simp
    have failed: "snd (functions_loop ?DL (module_functions M)) = Inl Fatal"
      using first func by (simp add: functions_loop_outcome)
    have "report M = (opening_banner M @ fst (functions_loop ?DL (module_functions M)), Inl Fatal)"
      using failed by (simp add: report_def next_stmt_unfold)
    then show ?cut
      by (simp add: funcs analyze_function_failing [OF func] blocks basic_block_text insts
          inst_text)
  qed
  show ?thesis
    using fails returns cut by blast
qed

theorem fatal_stack_allocation_witness:
  "module_fails bad_module
   \<and> report bad_module =
       (opening_banner bad_module
        @ fst (analyze_function sample_layout f_def)
        @ fst (definition_header g_def)
        @ ''   '' @ box_down_right @ box_horizontal @ '' Basic Block #1: unnamed'' @ nl
        @ bar @ ''  Instructions: 3'' @ nl
        @ bar @ nl
        @ fst (instructions_loop sample_layout 0 [alloca_i32])
        @ bar @ ''  [2]   %p = alloca %struct.S, align 1'' @ nl
        @ ind6 @ glyph_package @ '' Stack Allocation (alloca)'' @ nl
        @ ind9 @ ''Type: %struct.S'' @ nl
        @ ind9 @ ''Size: '',
        Inl Fatal)"
proof -
  have sized: "\<not> unsized_alloca sample_layout alloca_i32"
    by (simp add: unsized_alloca_def alloca_i32_def instruction_def sample_layout_def)
  have first:
    "module_functions bad_module = [f_def] @ g_def # [puts_decl]
     \<and> fn_blocks g_def = [] @ g_body # []
     \<and> bb_instructions g_body = [alloca_i32] @ alloca_opaque # [ret_void]
     \<and> \<not> list_ex (function_fails (getDataLayout bad_module)) [f_def]
     \<and> \<not> list_ex (block_fails (getDataLayout bad_module)) []
     \<and> \<not> list_ex (unsized_alloca (getDataLayout bad_module)) [alloca_i32]
     \<and> classify alloca_opaque = StackAllocation
     \<and> dyn_cast_AllocaInst alloca_opaque =
         Some \<lparr>getAllocatedType = ''%struct.S'', alloca_align = 1\<rparr>
     \<and> getDataLayout bad_module
         (getAllocatedType \<lparr>getAllocatedType = ''%struct.S'', alloca_align = 1\<rparr>) = None"
    using f_def_completes sized
    by (simp add: bad_module_def g_def_def g_body_def alloca_opaque_def instruction_def
        classify_def sample_layout_def)
  have fails: "module_fails bad_module"
    by (simp add: module_fails_def bad_module_def function_fails_def g_def_def
        block_fails_def g_body_def unsized_alloca_def alloca_opaque_def instruction_def
        classify_def sample_layout_def)
  have layout: "getDataLayout bad_module = sample_layout"
    by (simp add: bad_module_def)
  have "report bad_module =
       (opening_banner bad_module
        @ fst (analyze_function sample_layout f_def)
        @ fst (definition_header g_def)
        @ ''   '' @ box_down_right @ box_horizontal @ '' Basic Block #1: unnamed'' @ nl
        @ bar @ ''  Instructions: 3'' @ nl
        @ bar @ nl
        @ fst (instructions_loop sample_layout 0 [alloca_i32])
        @ bar @ ''  [2]   %p = alloca %struct.S, align 1'' @ nl
        @ ind6 @ glyph_package @ '' Stack Allocation (alloca)'' @ nl
        @ ind9 @ ''Type: %struct.S'' @ nl
        @ ind9 @ ''Size: '',
        Inl Fatal)"
    using first
      fatal_stack_allocation [where M = bad_module and ?Fs1.0 = "[f_def]" and F = g_def
        and ?Fs2.0 = "[puts_decl]" and ?Bs1.0 = "[]" and B = g_body and ?Bs2.0 = "[]"
        and ?Is1.0 = "[alloca_i32]" and I = alloca_opaque and ?Is2.0 = "[ret_void]"
        and alloca = "\<lparr>getAllocatedType = ''%struct.S'', alloca_align = 1\<rparr>"]
    by (simp add: layout del: instructions_loop.simps)
       (simp add: g_body_def alloca_opaque_def instruction_def show_nat_small
         del: instructions_loop.simps)
  then show ?thesis
    using fails by simp
qed

text \<open>
  C10. For a module with no function, the run writes the opening banner, which names the
  module, and the completion banner, and nothing between them, and returns the
  declaration that all analyses are preserved.
\<close>

theorem empty_module_report:
  "module_functions (ir s) = [] \<Longrightarrow>
   run s =
     (Inr PreservedAnalyses_all,
      s\<lparr>errs := errs s @ title_box @ glyph_folder @ '' Module: ''
               @ getModuleIdentifier (ir s) @ nl
               @ concat (replicate 78 box_dbl_horizontal) @ nl @ nl
               @ glyph_check @ '' Analysis Complete!'' @ nl
               @ concat (replicate 79 box_dbl_horizontal) @ nl @ nl\<rparr>)"
  by (simp add: run_def report_def opening_banner_def completion_banner_def)

theorem empty_module_report_witness:
  "module_functions (ir \<lparr>ir = empty_module, errs = []\<rparr>) = []
   \<and> fst (run \<lparr>ir = empty_module, errs = []\<rparr>) = Inr PreservedAnalyses_all
   \<and> errs (snd (run \<lparr>ir = empty_module, errs = []\<rparr>)) =
       title_box @ glyph_folder @ '' Module: empty.ll'' @ nl
       @ concat (replicate 78 box_dbl_horizontal) @ nl @ nl
       @ glyph_check @ '' Analysis Complete!'' @ nl
       @ concat (replicate 79 box_dbl_horizontal) @ nl @ nl"
proof -
  have none: "module_functions (ir \<lparr>ir = empty_module, errs = []\<rparr>) = []"
    by (simp add: empty_module_def)
  show ?thesis
    using none empty_module_report [OF none]
    by (simp add: empty_module_def)
qed

text \<open>
  C6. The run leaves the IR as it found it, whatever the module. Its only \<open>return\<close>
  hands back the declaration that all analyses are preserved: every value a run returns is
  that one, whatever the module holds, and a run returns whenever no stack allocation of
  the module lacks a size (the one way for a run to be cut short, see C5).
\<close>

theorem run_preserves_everything:
  "ir (snd (run s)) = ir s
   \<and> (\<forall>pa. fst (run s) = Inr pa \<longrightarrow> pa = PreservedAnalyses_all)
   \<and> (\<not> module_fails (ir s) \<longrightarrow> fst (run s) = Inr PreservedAnalyses_all)"
proof -
  have out: "fst (run s) = snd (report (ir s))" and frame: "ir (snd (run s)) = ir s"
    by (simp_all add: run_def split: prod.splits)
  show ?thesis
    using frame by (simp add: out report_outcome)
qed

theorem run_preserves_everything_witness:
  "\<not> module_fails good_module
   \<and> run \<lparr>ir = good_module, errs = []\<rparr> =
       (Inr PreservedAnalyses_all,
        \<lparr>ir = good_module, errs = fst (report good_module)\<rparr>)"
proof -
  have ok: "\<not> module_fails good_module"
    by (simp add: module_fails_def good_module_def function_fails_def puts_decl_def f_def_def
        block_fails_def f_entry_def f_exit_def unsized_alloca_def classify_def alloca_i32_def
        br_unnamed_def ret_42_def instruction_def sample_layout_def)
  have "run \<lparr>ir = good_module, errs = []\<rparr> =
     (fst (run \<lparr>ir = good_module, errs = []\<rparr>), \<lparr>ir = good_module, errs = fst (report good_module)\<rparr>)"
    by (simp add: run_def split: prod.splits)
  then show ?thesis
    using ok run_preserves_everything [of "\<lparr>ir = good_module, errs = []\<rparr>"]
    by simp
qed

end
